theory Spec2Isabelle
  imports Main "HOL-Library.Word" "HOL-Library.Sublist" "HOL-Library.AList"
begin

unbundle bit_operations_syntax

section \<open>JavaScript values and typed arrays\<close>

text \<open>
  The tool is JavaScript. Values that come out of \<^verbatim>\<open>JSON.parse\<close> or are built by object
  literals are modelled by \<open>jsval\<close>; an object is the list of its own properties, looked up
  by name. Numbers are integers here: the records of this tool hold amounts, decimals and
  timestamps, and no claim depends on fractions. Strings are lists of 8-bit characters, so
  a string of the model is a JavaScript string of ASCII or Latin-1 code units.
\<close>

datatype jsval =
    Undefined
  | Null
  | Bool bool
  | Num int
  | Str string
  | Arr "jsval list"
  | Obj "(string \<times> jsval) list"

type_synonym byte = "8 word"
type_synonym u64 = "64 word"

text \<open>
  A \<^verbatim>\<open>Uint8Array\<close> is a view of \<open>array_length\<close> bytes, starting at \<open>byteOffset\<close>, on an
  underlying \<^verbatim>\<open>ArrayBuffer\<close>. JavaScript only ever builds views that lie inside their
  buffer (\<open>valid_view\<close>).
\<close>

record Uint8Array =
  buffer :: "byte list"
  byteOffset :: nat
  array_length :: nat

definition valid_view :: "Uint8Array \<Rightarrow> bool" where
  "valid_view a = (byteOffset a + array_length a \<le> length (buffer a))"

text \<open>The bytes a view shows, and the view that shows exactly a given byte list.\<close>

definition elements :: "Uint8Array \<Rightarrow> byte list" where
  "elements a = take (array_length a) (drop (byteOffset a) (buffer a))"

definition from_bytes :: "byte list \<Rightarrow> Uint8Array" where
  "from_bytes bs = \<lparr>buffer = bs, byteOffset = 0, array_length = length bs\<rparr>"

text \<open>\<^verbatim>\<open>a[i]\<close>: the byte, or \<^verbatim>\<open>undefined\<close> (\<open>None\<close>) outside the view.\<close>

definition at_index :: "Uint8Array \<Rightarrow> nat \<Rightarrow> byte option" where
  "at_index a i =
     (if i < array_length a \<and> byteOffset a + i < length (buffer a)
      then Some (buffer a ! (byteOffset a + i)) else None)"

datatype js_error = RangeError | TypeError | SyntaxError | Error string

record DataView =
  dv_buffer :: "byte list"
  dv_byteOffset :: nat
  dv_byteLength :: nat

text \<open>\<^verbatim>\<open>new DataView(buffer, byteOffset, byteLength)\<close> throws a RangeError when the window
  does not fit the buffer.\<close>

definition new_DataView :: "byte list \<Rightarrow> nat \<Rightarrow> nat \<Rightarrow> js_error + DataView" where
  "new_DataView buf off n =
     (if off + n \<le> length buf
      then Inr \<lparr>dv_buffer = buf, dv_byteOffset = off, dv_byteLength = n\<rparr>
      else Inl RangeError)"

text \<open>The unsigned number a byte sequence encodes, least significant byte first.\<close>

fun le_bytes_to_u64 :: "byte list \<Rightarrow> u64" where
  "le_bytes_to_u64 [] = 0"
| "le_bytes_to_u64 (b # bs) = ucast b + push_bit 8 (le_bytes_to_u64 bs)"

text \<open>\<^verbatim>\<open>view.getBigUint64(pos, littleEndian)\<close>: eight bytes of the window, read in the given
  byte order; a RangeError when they do not fit the window.\<close>

definition getBigUint64 :: "DataView \<Rightarrow> nat \<Rightarrow> bool \<Rightarrow> js_error + u64" where
  "getBigUint64 v pos littleEndian =
     (if pos + 8 \<le> dv_byteLength v
      then (let raw = take 8 (drop (dv_byteOffset v + pos) (dv_buffer v))
            in Inr (le_bytes_to_u64 (if littleEndian then raw else rev raw)))
      else Inl RangeError)"

section \<open>Account Decoder (check-token.js, lines 135 to 154)\<close>

record MintAccountSnapshot =
  "supply" :: u64
  decimals :: "byte option"
  isInitialized :: bool

text \<open>
  What the tool prints is kept as a list of events, in the order of the calls. A value
  printed by \<^verbatim>\<open>console.log\<close> is kept as the value itself (\<open>shown\<close>), not as its
  formatted text. The pictographs that decorate the messages in the source are not ASCII
  and are left out of the strings.
\<close>

record Creator =
  cr_address :: string
  cr_share :: nat
  cr_verified :: bool

datatype shown =
    Text string
  | BigUint u64
  | ByteValue "byte option"
  | YesNo bool
  | Percent nat
  | Value jsval
  | LocaleDate jsval
  | LocaleNumber jsval
  | CreatorLine nat Creator
  | AttributeLine jsval jsval

datatype event =
    SpinnerStart string
  | SpinnerText string
  | SpinnerSucceed string
  | SpinnerWarn string
  | SpinnerFail string
  | LogTitle string
  | LogError string
  | LogWarning string
  | LogInfo string
  | LogSeparator
  | ConsoleLine shown
  | ConsoleLog string shown

text \<open>
  The block that parses the mint account data. \<open>mintInfo\<close> starts as \<^verbatim>\<open>null\<close> (\<open>None\<close>).
  Inside the \<^verbatim>\<open>try\<close>, guarded by \<^verbatim>\<open>mintData.length >= 82\<close>, the supply is read through a
  DataView at \<^verbatim>\<open>byteOffset + 36\<close>, the decimals are \<^verbatim>\<open>mintData[44]\<close> and the flag is
  \<^verbatim>\<open>mintData[45] === 1\<close>. The \<^verbatim>\<open>catch\<close> logs a warning and leaves \<open>mintInfo\<close> as it was.
  The result is \<open>mintInfo\<close> and what was logged.
\<close>

definition parseMintAccount :: "Uint8Array \<Rightarrow> MintAccountSnapshot option \<times> event list" where
  "parseMintAccount mintData =
     (if array_length mintData \<ge> 82 then
        (case new_DataView (buffer mintData) (byteOffset mintData + 36) 8 of
           Inl err \<Rightarrow> (None, [LogWarning ''Could not parse mint account data details''])
         | Inr view \<Rightarrow>
             (case getBigUint64 view 0 True of
                Inl err \<Rightarrow> (None, [LogWarning ''Could not parse mint account data details''])
              | Inr s \<Rightarrow>
                  (Some \<lparr>supply = s,
                         decimals = at_index mintData 44,
                         isInitialized = (at_index mintData 45 = Some 1)\<rparr>, [])))
      else (None, []))"

text \<open>
  The encoder the specification speaks of when it says that a supply "encoded little-endian
  at offset 36" is recovered: the \<open>k\<close> low bytes of a number, least significant first,
  and a buffer with some bytes overwritten from an offset on.
\<close>

fun u64_to_le_bytes :: "nat \<Rightarrow> u64 \<Rightarrow> byte list" where
  "u64_to_le_bytes 0 w = []"
| "u64_to_le_bytes (Suc k) w = ucast w # u64_to_le_bytes k (drop_bit 8 w)"

definition write_bytes :: "nat \<Rightarrow> byte list \<Rightarrow> byte list \<Rightarrow> byte list" where
  "write_bytes off new buf = take off buf @ new @ drop (off + length new) buf"

fun le_bytes_to_nat :: "byte list \<Rightarrow> nat" where
  "le_bytes_to_nat [] = 0"
| "le_bytes_to_nat (b # bs) = unat b + 256 * le_bytes_to_nat bs"

section \<open>Strings and operators of the language\<close>

text \<open>The letters of ASCII change case; every other character stays.\<close>

definition lower_char :: "char \<Rightarrow> char" where
  "lower_char c =
     (case map_of (zip ''ABCDEFGHIJKLMNOPQRSTUVWXYZ'' ''abcdefghijklmnopqrstuvwxyz'') c of
        Some l \<Rightarrow> l
      | None \<Rightarrow> c)"

definition upper_char :: "char \<Rightarrow> char" where
  "upper_char c =
     (case map_of (zip ''abcdefghijklmnopqrstuvwxyz'' ''ABCDEFGHIJKLMNOPQRSTUVWXYZ'') c of
        Some u \<Rightarrow> u
      | None \<Rightarrow> c)"

text \<open>\<^verbatim>\<open>s.toLowerCase()\<close> and \<^verbatim>\<open>s.toUpperCase()\<close> on ASCII strings.\<close>

definition toLowerCase :: "string \<Rightarrow> string" where
  "toLowerCase s = map lower_char s"

definition toUpperCase :: "string \<Rightarrow> string" where
  "toUpperCase s = map upper_char s"

text \<open>\<^verbatim>\<open>s.includes(t)\<close> and \<^verbatim>\<open>s.endsWith(t)\<close>.\<close>

definition includes_str :: "string \<Rightarrow> string \<Rightarrow> bool" where
  "includes_str s t = sublist t s"

definition endsWith :: "string \<Rightarrow> string \<Rightarrow> bool" where
  "endsWith s t = suffix t s"

text \<open>Truthiness, \<^verbatim>\<open>typeof\<close>, \<^verbatim>\<open>a || b\<close> and \<^verbatim>\<open>a === b\<close>. Two objects or arrays are
  strictly equal only when they are the same object; the values compared in this tool come
  from two separate calls of \<^verbatim>\<open>JSON.parse\<close>, so they never are.\<close>

fun truthy :: "jsval \<Rightarrow> bool" where
  "truthy Undefined = False"
| "truthy Null = False"
| "truthy (Bool b) = b"
| "truthy (Num n) = (n \<noteq> 0)"
| "truthy (Str s) = (s \<noteq> [])"
| "truthy (Arr xs) = True"
| "truthy (Obj kvs) = True"

fun typeof :: "jsval \<Rightarrow> string" where
  "typeof Undefined = ''undefined''"
| "typeof Null = ''object''"
| "typeof (Bool b) = ''boolean''"
| "typeof (Num n) = ''number''"
| "typeof (Str s) = ''string''"
| "typeof (Arr xs) = ''object''"
| "typeof (Obj kvs) = ''object''"

definition js_or :: "jsval \<Rightarrow> jsval \<Rightarrow> jsval" where
  "js_or a b = (if truthy a then a else b)"

fun strict_equals :: "jsval \<Rightarrow> jsval \<Rightarrow> bool" where
  "strict_equals (Arr xs) b = False"
| "strict_equals (Obj kvs) b = False"
| "strict_equals a b = (a = b)"

text \<open>The decimal text of a number, for the index keys of arrays and strings.\<close>

function decimal :: "nat \<Rightarrow> string" where
  "decimal n = (if n < 10 then [''0123456789'' ! n] else decimal (n div 10) @ [''0123456789'' ! (n mod 10)])"
  by pat_completeness auto
termination
  by (relation "measure id") auto

text \<open>
  \<^verbatim>\<open>v.k\<close> for a property name \<open>k\<close> that is not a built-in one: a TypeError (\<open>None\<close>) on
  \<^verbatim>\<open>null\<close> and \<^verbatim>\<open>undefined\<close>, the own property of an object, \<^verbatim>\<open>undefined\<close> otherwise.
  \<open>own_props\<close> is what the spread \<^verbatim>\<open>{...v}\<close> copies, and \<open>set_props\<close> the properties an
  object literal then sets, in order.
\<close>

fun getProp :: "jsval \<Rightarrow> string \<Rightarrow> jsval option" where
  "getProp Undefined k = None"
| "getProp Null k = None"
| "getProp (Obj kvs) k = Some (case map_of kvs k of Some v \<Rightarrow> v | None \<Rightarrow> Undefined)"
| "getProp v k = Some Undefined"

fun own_props :: "jsval \<Rightarrow> (string \<times> jsval) list" where
  "own_props (Obj kvs) = kvs"
| "own_props (Arr xs) = map (\<lambda>i. (decimal i, xs ! i)) [0..<length xs]"
| "own_props (Str s) = map (\<lambda>i. (decimal i, Str [s ! i])) [0..<length s]"
| "own_props v = []"

definition set_props :: "(string \<times> jsval) list \<Rightarrow> (string \<times> jsval) list \<Rightarrow> (string \<times> jsval) list" where
  "set_props kvs new = foldl (\<lambda>acc kv. AList.update (fst kv) (snd kv) acc) kvs new"

text \<open>
  Built-ins of the language that the tool calls and that are not part of its code:
  \<^verbatim>\<open>JSON.parse\<close> (\<open>None\<close> when it throws a SyntaxError), \<^verbatim>\<open>JSON.stringify(v, null, 2)\<close>
  (\<open>None\<close> when the result is \<^verbatim>\<open>undefined\<close>) and the operator \<^verbatim>\<open>+\<close>. They are parameters
  of the functions that use them.
\<close>

record js_runtime =
  JSON_parse :: "string \<Rightarrow> jsval option"
  JSON_stringify :: "jsval \<Rightarrow> string option"
  js_add :: "jsval \<Rightarrow> jsval \<Rightarrow> jsval"

section \<open>JSON text\<close>

text \<open>
  \<^verbatim>\<open>JSON.stringify(value, null, 2)\<close> and \<^verbatim>\<open>JSON.parse(text)\<close> as the language defines them,
  on the values of the model. The printer writes \<^verbatim>\<open>null\<close> for an \<^verbatim>\<open>undefined\<close> element of
  an array, leaves out a property whose value is \<^verbatim>\<open>undefined\<close>, and puts each element and
  each property on a line of its own, indented by two spaces for each level. A string is
  written between double quotes, with the quote, the backslash and the control characters
  escaped. A number is written in decimal, as JavaScript writes the integers that a double
  holds exactly.
\<close>

definition is_ws :: "char \<Rightarrow> bool" where
  "is_ws c = (c = CHR 0x20 \<or> c = CHR 0x09 \<or> c = CHR 0x0A \<or> c = CHR 0x0D)"

definition is_digit :: "char \<Rightarrow> bool" where
  "is_digit c = (c \<in> set ''0123456789'')"

definition digit_value :: "char \<Rightarrow> nat" where
  "digit_value c = (case map_of (zip ''0123456789'' [0..<10]) c of Some d \<Rightarrow> d | None \<Rightarrow> 0)"

definition hex_digit :: "nat \<Rightarrow> char" where
  "hex_digit d = ''0123456789abcdef'' ! d"

definition hex_value :: "char \<Rightarrow> nat option" where
  "hex_value c = map_of (zip ''0123456789abcdefABCDEF'' ([0..<16] @ [10..<16])) c"

text \<open>The escapes of \<^verbatim>\<open>JSON.stringify\<close>: short forms for backspace, tab, line feed, form
  feed and carriage return, \<^verbatim>\<open>\u00XX\<close> for the other characters below 0x20.\<close>

definition escape_char :: "char \<Rightarrow> string" where
  "escape_char c =
     (if c = CHR 0x22 then [CHR 0x5C, CHR 0x22]
      else if c = CHR 0x5C then [CHR 0x5C, CHR 0x5C]
      else if c = CHR 0x08 then [CHR 0x5C, CHR ''b'']
      else if c = CHR 0x09 then [CHR 0x5C, CHR ''t'']
      else if c = CHR 0x0A then [CHR 0x5C, CHR ''n'']
      else if c = CHR 0x0C then [CHR 0x5C, CHR ''f'']
      else if c = CHR 0x0D then [CHR 0x5C, CHR ''r'']
      else if (of_char c :: nat) < 32
        then [CHR 0x5C, CHR ''u'', CHR ''0'', CHR ''0'',
              hex_digit ((of_char c :: nat) div 16), hex_digit ((of_char c :: nat) mod 16)]
      else [c])"

definition quote :: "string \<Rightarrow> string" where
  "quote s = [CHR 0x22] @ concat (map escape_char s) @ [CHR 0x22]"

definition print_int :: "int \<Rightarrow> string" where
  "print_int i = (if i < 0 then CHR ''-'' # decimal (nat (- i)) else decimal (nat i))"

definition newline_indent :: "nat \<Rightarrow> string" where
  "newline_indent level = CHR 0x0A # replicate (2 * level) CHR 0x20"

fun join :: "string \<Rightarrow> string list \<Rightarrow> string" where
  "join sep [] = []"
| "join sep [x] = x"
| "join sep (x # y # ys) = x @ sep @ join sep (y # ys)"

fun print_value :: "nat \<Rightarrow> jsval \<Rightarrow> string" where
  "print_value level Undefined = ''null''"
| "print_value level Null = ''null''"
| "print_value level (Bool b) = (if b then ''true'' else ''false'')"
| "print_value level (Num i) = print_int i"
| "print_value level (Str s) = quote s"
| "print_value level (Arr xs) =
     (if xs = [] then ''[]''
      else ''['' @ newline_indent (Suc level)
           @ join (CHR '','' # newline_indent (Suc level)) (map (print_value (Suc level)) xs)
           @ newline_indent level @ '']'')"
| "print_value level (Obj kvs) =
     (if filter (\<lambda>kv. snd kv \<noteq> Undefined) kvs = [] then ''{}''
      else ''{'' @ newline_indent (Suc level)
           @ join (CHR '','' # newline_indent (Suc level))
               (map (\<lambda>kv. quote (fst kv) @ '': '' @ print_value (Suc level) (snd kv))
                  (filter (\<lambda>kv. snd kv \<noteq> Undefined) kvs))
           @ newline_indent level @ ''}'')"

definition JSON_stringify_text :: "jsval \<Rightarrow> string option" where
  "JSON_stringify_text v = (if v = Undefined then None else Some (print_value 0 v))"

text \<open>
  The parser. White space may stand before and after every token. A string ends at the
  first quote that is not escaped; a control character inside it is a SyntaxError, and so
  is an unknown escape. An escape \<^verbatim>\<open>\uXXXX\<close> above 0xFF, and a number with a fraction or an
  exponent, have no value in the model and are refused as well. An object keeps its
  properties in the order of the text; a name that comes twice keeps its first place and
  its last value. \<open>fuel\<close> bounds the number of values read and is as long as the text.
\<close>

definition skip_ws :: "string \<Rightarrow> string" where
  "skip_ws s = dropWhile is_ws s"

definition unescape :: "char \<Rightarrow> char option" where
  "unescape e =
     map_of [(CHR 0x22, CHR 0x22), (CHR 0x5C, CHR 0x5C), (CHR ''/'', CHR ''/''),
             (CHR ''b'', CHR 0x08), (CHR ''t'', CHR 0x09), (CHR ''n'', CHR 0x0A),
             (CHR ''f'', CHR 0x0C), (CHR ''r'', CHR 0x0D)] e"

definition hex4 :: "char \<Rightarrow> char \<Rightarrow> char \<Rightarrow> char \<Rightarrow> nat option" where
  "hex4 a b c d =
     (case (hex_value a, hex_value b, hex_value c, hex_value d) of
        (Some x3, Some x2, Some x1, Some x0) \<Rightarrow> Some (((x3 * 16 + x2) * 16 + x1) * 16 + x0)
      | _ \<Rightarrow> None)"

fun parse_string_body :: "string \<Rightarrow> (string \<times> string) option" where
  "parse_string_body [] = None"
| "parse_string_body (c # cs) =
     (if c = CHR 0x22 then Some ([], cs)
      else if c = CHR 0x5C then
        (case cs of
           [] \<Rightarrow> None
         | e # cs1 \<Rightarrow>
             if e = CHR ''u'' then
               (case cs1 of
                  a # b # x # y # cs2 \<Rightarrow>
                    (case hex4 a b x y of
                       None \<Rightarrow> None
                     | Some code \<Rightarrow>
                         if code < 256
                         then map_option (\<lambda>r. (char_of code # fst r, snd r)) (parse_string_body cs2)
                         else None)
                | _ \<Rightarrow> None)
             else
               (case unescape e of
                  None \<Rightarrow> None
                | Some ch \<Rightarrow> map_option (\<lambda>r. (ch # fst r, snd r)) (parse_string_body cs1)))
      else if (of_char c :: nat) < 32 then None
      else map_option (\<lambda>r. (c # fst r, snd r)) (parse_string_body cs))"

definition digits_value :: "string \<Rightarrow> nat" where
  "digits_value ds = foldl (\<lambda>acc c. 10 * acc + digit_value c) 0 ds"

text \<open>An integer: an optional minus sign, then \<^verbatim>\<open>0\<close> or digits that do not start with
  \<^verbatim>\<open>0\<close>.\<close>

definition parse_number :: "string \<Rightarrow> (jsval \<times> string) option" where
  "parse_number s =
     (let negative = (s \<noteq> [] \<and> hd s = CHR ''-'');
          body = (if negative then tl s else s);
          ds = takeWhile is_digit body;
          rest = dropWhile is_digit body
      in if ds = [] \<or> (length ds > 1 \<and> hd ds = CHR ''0'') then None
         else if rest \<noteq> [] \<and> hd rest \<in> set ''.eE'' then None
         else Some (Num (if negative then - int (digits_value ds) else int (digits_value ds)), rest))"

fun parse_value :: "nat \<Rightarrow> string \<Rightarrow> (jsval \<times> string) option"
and parse_elements :: "nat \<Rightarrow> string \<Rightarrow> (jsval list \<times> string) option"
and parse_members :: "nat \<Rightarrow> string \<Rightarrow> ((string \<times> jsval) list \<times> string) option" where
  "parse_value 0 s = None"
| "parse_value (Suc fuel) s =
     (case skip_ws s of
        [] \<Rightarrow> None
      | c # cs \<Rightarrow>
          if c = CHR 0x22 then map_option (\<lambda>r. (Str (fst r), snd r)) (parse_string_body cs)
          else if c = CHR ''['' then
            (if skip_ws cs \<noteq> [] \<and> hd (skip_ws cs) = CHR '']'' then Some (Arr [], tl (skip_ws cs))
             else map_option (\<lambda>r. (Arr (fst r), snd r)) (parse_elements fuel cs))
          else if c = CHR ''{'' then
            (if skip_ws cs \<noteq> [] \<and> hd (skip_ws cs) = CHR ''}'' then Some (Obj [], tl (skip_ws cs))
             else map_option (\<lambda>r. (Obj (set_props [] (fst r)), snd r)) (parse_members fuel cs))
          else if prefix ''null'' (c # cs) then Some (Null, drop 4 (c # cs))
          else if prefix ''true'' (c # cs) then Some (Bool True, drop 4 (c # cs))
          else if prefix ''false'' (c # cs) then Some (Bool False, drop 5 (c # cs))
          else parse_number (c # cs))"
| "parse_elements 0 s = None"
| "parse_elements (Suc fuel) s =
     (case parse_value fuel s of
        None \<Rightarrow> None
      | Some (v, r) \<Rightarrow>
          (case skip_ws r of
             [] \<Rightarrow> None
           | c # r1 \<Rightarrow>
               if c = CHR '','' then map_option (\<lambda>more. (v # fst more, snd more)) (parse_elements fuel r1)
               else if c = CHR '']'' then Some ([v], r1)
               else None))"
| "parse_members 0 s = None"
| "parse_members (Suc fuel) s =
     (case skip_ws s of
        [] \<Rightarrow> None
      | q # cs \<Rightarrow>
          if q \<noteq> CHR 0x22 then None
          else
            (case parse_string_body cs of
               None \<Rightarrow> None
             | Some (k, r) \<Rightarrow>
                 (case skip_ws r of
                    [] \<Rightarrow> None
                  | colon # r1 \<Rightarrow>
                      if colon \<noteq> CHR '':'' then None
                      else
                        (case parse_value fuel r1 of
                           None \<Rightarrow> None
                         | Some (v, r2) \<Rightarrow>
                             (case skip_ws r2 of
                                [] \<Rightarrow> None
                              | c # r3 \<Rightarrow>
                                  if c = CHR '','' then
                                    map_option (\<lambda>more. ((k, v) # fst more, snd more)) (parse_members fuel r3)
                                  else if c = CHR ''}'' then Some ([(k, v)], r3)
                                  else None)))))"

definition JSON_parse_text :: "string \<Rightarrow> jsval option" where
  "JSON_parse_text s =
     (case parse_value (Suc (length s)) s of
        None \<Rightarrow> None
      | Some (v, rest) \<Rightarrow> if skip_ws rest = [] then Some v else None)"

text \<open>
  The runtime whose JSON built-ins are the two functions above; the operator \<^verbatim>\<open>+\<close> stays a
  parameter.
\<close>

definition node_runtime :: "(jsval \<Rightarrow> jsval \<Rightarrow> jsval) \<Rightarrow> js_runtime" where
  "node_runtime add = \<lparr>JSON_parse = JSON_parse_text, JSON_stringify = JSON_stringify_text, js_add = add\<rparr>"

text \<open>
  The values that JSON represents: no \<^verbatim>\<open>undefined\<close> anywhere, numbers that a double holds
  exactly, objects whose property names are distinct. A name made of digits only is left
  out: JavaScript lists such properties before the others, whatever the order in which
  they were set, so that the order of the model is not theirs.
\<close>

definition index_like :: "string \<Rightarrow> bool" where
  "index_like k = (k \<noteq> [] \<and> list_all is_digit k)"

fun json_value :: "jsval \<Rightarrow> bool" where
  "json_value Undefined = False"
| "json_value Null = True"
| "json_value (Bool b) = True"
| "json_value (Num i) = (\<bar>i\<bar> < 2 ^ 53)"
| "json_value (Str s) = True"
| "json_value (Arr xs) = (\<forall>x \<in> set xs. json_value x)"
| "json_value (Obj kvs) =
     (distinct (map fst kvs) \<and> (\<forall>kv \<in> set kvs. \<not> index_like (fst kv) \<and> json_value (snd kv)))"

text \<open>
  Two conditions on the text around a value, used to state what the parser does on what
  the printer wrote: the text after a number must not go on as a number, and the text of
  an element starts with something that is neither white space nor a closing bracket.
\<close>

definition value_end :: "string \<Rightarrow> bool" where
  "value_end r = (r = [] \<or> (\<not> is_digit (hd r) \<and> hd r \<notin> set ''.eE''))"

definition starts_value :: "string \<Rightarrow> bool" where
  "starts_value s = (s \<noteq> [] \<and> \<not> is_ws (hd s) \<and> hd s \<noteq> CHR '']'' \<and> hd s \<noteq> CHR ''}'')"

section \<open>Configuration (config/config.js)\<close>

definition CONFIG_NETWORK :: "(string \<times> string) list" where
  "CONFIG_NETWORK =
     [(''DEVNET'', ''https://api.devnet.solana.com''),
      (''MAINNET'', ''https://api.mainnet-beta.solana.com''),
      (''TESTNET'', ''https://api.testnet.solana.com'')]"

definition CONFIG_DEFAULT_NETWORK :: string where
  "CONFIG_DEFAULT_NETWORK = ''DEVNET''"

definition CONFIG_EXPLORERS :: "(string \<times> (string \<times> string) list) list" where
  "CONFIG_EXPLORERS =
     [(''DEVNET'', [(''SOLANA'', ''https://explorer.solana.com''), (''SOLSCAN'', ''https://solscan.io'')]),
      (''MAINNET'', [(''SOLANA'', ''https://explorer.solana.com''), (''SOLSCAN'', ''https://solscan.io'')])]"

text \<open>
  A parameter with a default value takes the default when the caller leaves it out
  (\<open>None\<close>). A key that an object does not have reads as \<^verbatim>\<open>undefined\<close>; the keys looked up
  here are upper-cased, so none of them names a property inherited from the prototype.
\<close>

definition getNetworkUrl :: "string option \<Rightarrow> string option" where
  "getNetworkUrl network_arg =
     (let network = (case network_arg of None \<Rightarrow> CONFIG_DEFAULT_NETWORK | Some n \<Rightarrow> n)
      in map_of CONFIG_NETWORK (toUpperCase network))"

text \<open>
  \<^verbatim>\<open>CONFIG.EXPLORERS[network.toUpperCase()][type.toUpperCase()] + cluster\<close>: reading a
  property of \<^verbatim>\<open>undefined\<close> throws a TypeError, and \<^verbatim>\<open>undefined + cluster\<close> is the text
  \<^verbatim>\<open>undefined\<close> followed by the suffix.
\<close>

definition getExplorerUrl :: "string option \<Rightarrow> string option \<Rightarrow> js_error + string" where
  "getExplorerUrl type_arg network_arg =
     (let type = (case type_arg of None \<Rightarrow> ''SOLANA'' | Some t \<Rightarrow> t);
          network = (case network_arg of None \<Rightarrow> CONFIG_DEFAULT_NETWORK | Some n \<Rightarrow> n);
          cluster = (if toLowerCase network = ''mainnet'' then []
                     else ''?cluster='' @ toLowerCase network)
      in case map_of CONFIG_EXPLORERS (toUpperCase network) of
           None \<Rightarrow> Inl TypeError
         | Some explorers \<Rightarrow>
             Inr ((case map_of explorers (toUpperCase type) of
                     None \<Rightarrow> ''undefined''
                   | Some url \<Rightarrow> url) @ cluster))"

definition getNetworkCluster :: "string option \<Rightarrow> string" where
  "getNetworkCluster network_arg =
     (let network = (case network_arg of None \<Rightarrow> CONFIG_DEFAULT_NETWORK | Some n \<Rightarrow> n)
      in if toLowerCase network = ''mainnet'' then [] else ''?cluster='' @ toLowerCase network)"

section \<open>Explorer Link Builder and validators (utils.js)\<close>

record ExplorerUrls =
  solana :: string
  solscan :: string

definition getExplorerUrls :: "string \<Rightarrow> string option \<Rightarrow> string option \<Rightarrow> ExplorerUrls" where
  "getExplorerUrls address type_arg network_arg =
     (let type = (case type_arg of None \<Rightarrow> ''address'' | Some t \<Rightarrow> t);
          network = (case network_arg of None \<Rightarrow> CONFIG_DEFAULT_NETWORK | Some n \<Rightarrow> n);
          cluster = (if toLowerCase network = ''mainnet'' then []
                     else ''?cluster='' @ toLowerCase network)
      in \<lparr>solana = ''https://explorer.solana.com/'' @ type @ ''/'' @ address @ cluster,
          solscan = ''https://solscan.io/'' @ type @ ''/'' @ address @ cluster\<rparr>)"

definition displayExplorerLinks :: "string \<Rightarrow> string option \<Rightarrow> string option \<Rightarrow> event list" where
  "displayExplorerLinks address type_arg network_arg =
     (let urls = getExplorerUrls address type_arg network_arg
      in [LogTitle ''EXPLORER LINKS'',
          ConsoleLog ''Solana Explorer:'' (Text (solana urls)),
          ConsoleLog ''SolScan:'' (Text (solscan urls)),
          LogSeparator])"

definition validateAddress :: "jsval \<Rightarrow> bool" where
  "validateAddress address =
     (if \<not> truthy address \<or> typeof address \<noteq> ''string'' then False
      else (case address of
              Str s \<Rightarrow> length s \<ge> 32 \<and> length s \<le> 44
            | _ \<Rightarrow> False))"

text \<open>
  The alphabet of base58, as used for Solana addresses: the digits and letters without
  \<^verbatim>\<open>0\<close>, \<^verbatim>\<open>O\<close>, \<^verbatim>\<open>I\<close> and \<^verbatim>\<open>l\<close>. It is not part of the tool; it states what the validator
  does not check.
\<close>

definition base58_alphabet :: string where
  "base58_alphabet = ''123456789ABCDEFGHJKLMNPQRSTUVWXYZabcdefghijkmnopqrstuvwxyz''"

definition is_base58 :: "string \<Rightarrow> bool" where
  "is_base58 s = list_all (\<lambda>c. List.member base58_alphabet c) s"

definition bad_address :: string where
  "bad_address = ''0!00000000000000000000000000000000000000''"

section \<open>The file system and the Local Record Store (utils.js)\<close>

text \<open>
  A path is the list of its components below the working directory; \<^verbatim>\<open>path.join\<close> and
  \<^verbatim>\<open>path.dirname\<close> append and drop the last component. The file system lists its files
  and directories in the order in which \<^verbatim>\<open>readdirSync\<close> reports them; the working
  directory itself (the empty path) always exists. The functions of \<^verbatim>\<open>fs\<close> throw as Node
  does: reading or writing a directory, writing below a missing directory, listing a file.
\<close>

type_synonym path = "string list"

datatype node = File string | Dir

type_synonym filesystem = "(path \<times> node) list"

definition dirname :: "path \<Rightarrow> path" where
  "dirname p = butlast p"

definition path_join :: "path \<Rightarrow> string \<Rightarrow> path" where
  "path_join d name = d @ [name]"

definition lookup_node :: "filesystem \<Rightarrow> path \<Rightarrow> node option" where
  "lookup_node fs p = (if p = [] then Some Dir else map_of fs p)"

definition existsSync :: "filesystem \<Rightarrow> path \<Rightarrow> bool" where
  "existsSync fs p = (lookup_node fs p \<noteq> None)"

fun mkdirs :: "filesystem \<Rightarrow> path \<Rightarrow> string list \<Rightarrow> js_error + filesystem" where
  "mkdirs fs parent [] = Inr fs"
| "mkdirs fs parent (c # cs) =
     (case lookup_node fs (parent @ [c]) of
        Some (File t) \<Rightarrow> Inl (Error ''ENOTDIR'')
      | Some Dir \<Rightarrow> mkdirs fs (parent @ [c]) cs
      | None \<Rightarrow> mkdirs (fs @ [(parent @ [c], Dir)]) (parent @ [c]) cs)"

text \<open>\<^verbatim>\<open>fs.mkdirSync(p, { recursive: true })\<close>.\<close>

definition mkdirSync_recursive :: "filesystem \<Rightarrow> path \<Rightarrow> js_error + filesystem" where
  "mkdirSync_recursive fs p = mkdirs fs [] p"

definition writeFileSync :: "filesystem \<Rightarrow> path \<Rightarrow> string \<Rightarrow> js_error + filesystem" where
  "writeFileSync fs p content =
     (case lookup_node fs p of
        Some Dir \<Rightarrow> Inl (Error ''EISDIR'')
      | _ \<Rightarrow>
          (if lookup_node fs (dirname p) = Some Dir
           then Inr (AList.update p (File content) fs)
           else Inl (Error ''ENOENT'')))"

definition readFileSync :: "filesystem \<Rightarrow> path \<Rightarrow> js_error + string" where
  "readFileSync fs p =
     (case lookup_node fs p of
        Some (File content) \<Rightarrow> Inr content
      | Some Dir \<Rightarrow> Inl (Error ''EISDIR'')
      | None \<Rightarrow> Inl (Error ''ENOENT''))"

definition readdirSync :: "filesystem \<Rightarrow> path \<Rightarrow> js_error + string list" where
  "readdirSync fs d =
     (case lookup_node fs d of
        Some Dir \<Rightarrow> Inr (map (\<lambda>e. last (fst e)) (filter (\<lambda>e. fst e \<noteq> [] \<and> butlast (fst e) = d) fs))
      | Some (File t) \<Rightarrow> Inl (Error ''ENOTDIR'')
      | None \<Rightarrow> Inl (Error ''ENOENT''))"

subsection \<open>fileUtils\<close>

definition ensureDir :: "filesystem \<Rightarrow> path \<Rightarrow> js_error + filesystem" where
  "ensureDir fs dirPath =
     (if \<not> existsSync fs dirPath then mkdirSync_recursive fs dirPath else Inr fs)"

text \<open>\<^verbatim>\<open>fs.writeFileSync(filePath, JSON.stringify(data, null, 2))\<close>; \<^verbatim>\<open>writeFileSync\<close> refuses
  \<^verbatim>\<open>undefined\<close> as data with a TypeError.\<close>

definition saveJson :: "js_runtime \<Rightarrow> filesystem \<Rightarrow> path \<Rightarrow> jsval \<Rightarrow> js_error + filesystem" where
  "saveJson rt fs filePath data =
     (case ensureDir fs (dirname filePath) of
        Inl err \<Rightarrow> Inl err
      | Inr fs1 \<Rightarrow>
          (case JSON_stringify rt data of
             None \<Rightarrow> Inl TypeError
           | Some content \<Rightarrow> writeFileSync fs1 filePath content))"

definition loadJson :: "js_runtime \<Rightarrow> filesystem \<Rightarrow> path \<Rightarrow> js_error + jsval" where
  "loadJson rt fs filePath =
     (if \<not> existsSync fs filePath then Inl (Error ''File not found'')
      else (case readFileSync fs filePath of
              Inl err \<Rightarrow> Inl err
            | Inr content \<Rightarrow>
                (case JSON_parse rt content of
                   None \<Rightarrow> Inl SyntaxError
                 | Some v \<Rightarrow> Inr v)))"

definition listFiles :: "filesystem \<Rightarrow> path \<Rightarrow> string \<Rightarrow> js_error + path list" where
  "listFiles fs dirPath extension =
     (if \<not> existsSync fs dirPath then Inr []
      else (case readdirSync fs dirPath of
              Inl err \<Rightarrow> Inl err
            | Inr names \<Rightarrow>
                Inr (map (\<lambda>file. path_join dirPath file)
                       (filter (\<lambda>file. if extension \<noteq> [] then endsWith file extension else True) names))))"

subsection \<open>tokenUtils\<close>

definition CONFIG_PATHS_TOKENS :: path where
  "CONFIG_PATHS_TOKENS = [''tokens'']"

definition listTokens :: "filesystem \<Rightarrow> js_error + path list" where
  "listTokens fs = listFiles fs CONFIG_PATHS_TOKENS ''.json''"

section \<open>Patching a record by mint address (mint-tokens.js and revoke-authorities.js)\<close>

text \<open>
  The callback of \<^verbatim>\<open>tokenFiles.find\<close>: a file that cannot be loaded, or whose content has no
  properties to read, does not match.
\<close>

definition matchesMint :: "js_runtime \<Rightarrow> filesystem \<Rightarrow> jsval \<Rightarrow> path \<Rightarrow> bool" where
  "matchesMint rt fs tokenAddress file =
     (case loadJson rt fs file of
        Inl err \<Rightarrow> False
      | Inr data \<Rightarrow>
          (case getProp data ''mintAddress'' of
             None \<Rightarrow> False
           | Some v \<Rightarrow> strict_equals v tokenAddress))"

text \<open>The lookup both operations start with: the first token file that matches.\<close>

definition findTokenFile :: "js_runtime \<Rightarrow> filesystem \<Rightarrow> jsval \<Rightarrow> js_error + path option" where
  "findTokenFile rt fs tokenAddress =
     (case listTokens fs of
        Inl err \<Rightarrow> Inl err
      | Inr tokenFiles \<Rightarrow> Inr (find (matchesMint rt fs tokenAddress) tokenFiles))"

text \<open>
  After minting (mint-tokens.js, lines 314 to 342). \<open>now\<close> is the text of
  \<^verbatim>\<open>new Date().toISOString()\<close>. Any exception inside the \<^verbatim>\<open>try\<close> ends in the warning.
  A call of \<open>saveJson\<close> that throws leaves the files as they were: the file it is given
  here was found in the listing, so its directory exists and nothing is created before
  the write fails.
\<close>

definition mint_updatedInfo :: "js_runtime \<Rightarrow> jsval \<Rightarrow> jsval \<Rightarrow> string \<Rightarrow> jsval option" where
  "mint_updatedInfo rt tokenInfo amount now =
     (case getProp tokenInfo ''totalMinted'' of
        None \<Rightarrow> None
      | Some oldTotal \<Rightarrow>
          Some (Obj (set_props (own_props tokenInfo)
                  [(''lastMintAmount'', amount),
                   (''lastMintDate'', Str now),
                   (''totalMinted'', js_add rt (js_or oldTotal (Num 0)) amount)])))"

definition mintTokens_updateInfo ::
  "js_runtime \<Rightarrow> filesystem \<Rightarrow> jsval \<Rightarrow> jsval \<Rightarrow> jsval \<Rightarrow> string \<Rightarrow> filesystem \<times> event list" where
  "mintTokens_updateInfo rt fs tokenInfo tokenAddress amount now =
     (if truthy tokenInfo then
        (case findTokenFile rt fs tokenAddress of
           Inl err \<Rightarrow> (fs, [LogWarning ''Could not update token info file''])
         | Inr None \<Rightarrow> (fs, [])
         | Inr (Some tokenFile) \<Rightarrow>
             (case mint_updatedInfo rt tokenInfo amount now of
                None \<Rightarrow> (fs, [LogWarning ''Could not update token info file''])
              | Some updatedInfo \<Rightarrow>
                  (case saveJson rt fs tokenFile updatedInfo of
                     Inl err \<Rightarrow> (fs, [LogWarning ''Could not update token info file''])
                   | Inr fs' \<Rightarrow> (fs', [LogInfo ''Token info updated with minting details'']))))
      else (fs, []))"

text \<open>
  After revocation (revoke-authorities.js, lines 333 to 362). \<open>results\<close> is what the loop
  over the chosen authorities left: \<open>mintRevoked\<close> is \<^verbatim>\<open>true\<close> after an attempt that
  succeeded, \<^verbatim>\<open>false\<close> after one that failed and \<^verbatim>\<open>undefined\<close> when mint was not chosen;
  \<open>mintRevokeSignature\<close> is the signature found in the output, or \<^verbatim>\<open>undefined\<close>; the same
  for freeze.
\<close>

record RevokeResults =
  mintRevoked :: "bool option"
  mintRevokeSignature :: "string option"
  freezeRevoked :: "bool option"
  freezeRevokeSignature :: "string option"

text \<open>A property of \<open>results\<close> that was never set reads as \<^verbatim>\<open>undefined\<close>.\<close>

definition flag_value :: "bool option \<Rightarrow> jsval" where
  "flag_value f = (case f of None \<Rightarrow> Undefined | Some b \<Rightarrow> Bool b)"

definition text_value :: "string option \<Rightarrow> jsval" where
  "text_value t = (case t of None \<Rightarrow> Undefined | Some s \<Rightarrow> Str s)"

definition revoke_updatedInfo :: "jsval \<Rightarrow> RevokeResults \<Rightarrow> string \<Rightarrow> jsval option" where
  "revoke_updatedInfo tokenInfo results now =
     (case (getProp tokenInfo ''mintAuthorityRevoked'', getProp tokenInfo ''freezeAuthorityRevoked'',
            getProp tokenInfo ''mintRevokeTransaction'', getProp tokenInfo ''freezeRevokeTransaction'') of
        (Some oldMint, Some oldFreeze, Some oldMintTx, Some oldFreezeTx) \<Rightarrow>
          Some (Obj (set_props (own_props tokenInfo)
                  [(''mintAuthorityRevoked'', js_or (flag_value (mintRevoked results)) oldMint),
                   (''freezeAuthorityRevoked'', js_or (flag_value (freezeRevoked results)) oldFreeze),
                   (''mintRevokeTransaction'', js_or (text_value (mintRevokeSignature results)) oldMintTx),
                   (''freezeRevokeTransaction'', js_or (text_value (freezeRevokeSignature results)) oldFreezeTx),
                   (''lastRevokeDate'', Str now)]))
      | _ \<Rightarrow> None)"

definition revokeAuthorities_updateInfo ::
  "js_runtime \<Rightarrow> filesystem \<Rightarrow> jsval \<Rightarrow> jsval \<Rightarrow> RevokeResults \<Rightarrow> string \<Rightarrow> filesystem \<times> event list" where
  "revokeAuthorities_updateInfo rt fs tokenInfo tokenAddress results now =
     (if truthy tokenInfo then
        (case findTokenFile rt fs tokenAddress of
           Inl err \<Rightarrow> (fs, [LogWarning ''Could not update token info file''])
         | Inr None \<Rightarrow> (fs, [])
         | Inr (Some tokenFile) \<Rightarrow>
             (case revoke_updatedInfo tokenInfo results now of
                None \<Rightarrow> (fs, [LogWarning ''Could not update token info file''])
              | Some updatedInfo \<Rightarrow>
                  (case saveJson rt fs tokenFile updatedInfo of
                     Inl err \<Rightarrow> (fs, [LogWarning ''Could not update token info file''])
                   | Inr fs' \<Rightarrow> (fs', [LogInfo ''Token info updated with revocation details'']))))
      else (fs, []))"

section \<open>Inspecting a token (check-token.js)\<close>

text \<open>
  What the SDK and the network return is input to the model. A mint account either does
  not exist or exists with its data. The metadata is the record of the fields that the
  tool prints. The off-chain document is read as the Metaplex JSON it is expected to be;
  a document of another shape is outside the model. A call of \<^verbatim>\<open>fetch\<close> throws, or gives a
  response with its \<^verbatim>\<open>ok\<close> flag and the result of \<^verbatim>\<open>response.json()\<close> (\<open>None\<close> when that
  throws).
\<close>

datatype rpc_account = AccountMissing | AccountExists Uint8Array

record Metadata =
  md_name :: string
  md_symbol :: string
  md_uri :: string
  md_updateAuthority :: string
  md_isMutable :: bool
  md_primarySaleHappened :: bool
  md_sellerFeeBasisPoints :: nat
  md_tokenStandard :: "string option"
  md_creators :: "Creator list option"

record OffChain =
  oc_description :: "string option"
  oc_image :: "string option"
  oc_external_url :: "string option"
  oc_attributes :: "(jsval \<times> jsval) list option"

datatype fetch_result = FetchThrew string | FetchResponse bool "OffChain option"

text \<open>
  The answers to the prompts (lines 29 to 112) and the behaviour of the collaborators.
  \<open>env_setup\<close> is the message of the exception that \<^verbatim>\<open>createUmi\<close> or \<^verbatim>\<open>publicKey\<close> throws,
  if any; \<open>env_getAccount\<close> and \<open>env_fetchMetadataFromSeeds\<close> give a result or the message
  of the exception. \<open>env_tokenInfo\<close> is the local record of the chosen token, \<^verbatim>\<open>null\<close> when
  the address was typed in.
\<close>

record check_env =
  env_tokenAddress :: string
  env_tokenInfo :: jsval
  env_network :: string
  env_setup :: "string option"
  env_getAccount :: "string + rpc_account"
  env_fetchMetadataFromSeeds :: "string + Metadata"
  env_fetch :: "string \<Rightarrow> fetch_result"
  env_action :: string

text \<open>How the inspection ends: the early return of line 130, the end of the function with
  the final \<open>mintInfo\<close> and \<open>metadataExists\<close>, or an exception that leaves the function.\<close>

datatype exit = NotFound | Completed "MintAccountSnapshot option" bool | Thrown string

text \<open>Lines 171 to 183: the on-chain facts of the mint.\<close>

definition mintFacts :: "string \<Rightarrow> string \<Rightarrow> MintAccountSnapshot option \<Rightarrow> event list" where
  "mintFacts tokenAddress network mintInfo =
     [LogSeparator,
      LogTitle ''TOKEN INFORMATION'',
      ConsoleLog ''Token Address:'' (Text tokenAddress),
      ConsoleLog ''Network:'' (Text network),
      ConsoleLog ''Mint Account:'' (Text ''Exists'')]
     @ (case mintInfo of
          None \<Rightarrow> []
        | Some m \<Rightarrow>
            [ConsoleLog ''Supply:'' (BigUint (supply m)),
             ConsoleLog ''Decimals:'' (ByteValue (decimals m)),
             ConsoleLog ''Initialized:'' (YesNo (isInitialized m))])"

text \<open>Lines 186 to 204: the on-chain metadata.\<close>

definition metadataLines :: "Metadata \<Rightarrow> event list" where
  "metadataLines metadata =
     [LogSeparator,
      LogTitle ''METADATA INFORMATION'',
      ConsoleLog ''Name:'' (Text (md_name metadata)),
      ConsoleLog ''Symbol:'' (Text (md_symbol metadata)),
      ConsoleLog ''URI:'' (Text (md_uri metadata)),
      ConsoleLog ''Update Authority:'' (Text (md_updateAuthority metadata)),
      ConsoleLog ''Mint Authority:'' (Text ''Check via CLI''),
      ConsoleLog ''Is Mutable:'' (YesNo (md_isMutable metadata)),
      ConsoleLog ''Primary Sale:'' (YesNo (md_primarySaleHappened metadata)),
      ConsoleLog ''Seller Fee:'' (Percent (md_sellerFeeBasisPoints metadata)),
      ConsoleLog ''Token Standard:''
        (Text (case md_tokenStandard metadata of
                 None \<Rightarrow> ''Unknown''
               | Some t \<Rightarrow> if t \<noteq> [] then t else ''Unknown''))]
     @ (case md_creators metadata of
          None \<Rightarrow> []
        | Some creators \<Rightarrow>
            if length creators > 0
            then ConsoleLine (Text ''Creators:'')
                 # map (\<lambda>index. ConsoleLine (CreatorLine (index + 1) (creators ! index)))
                     [0..<length creators]
            else [])"

text \<open>Lines 215 to 232: the off-chain document, once fetched.\<close>

definition offChainLines :: "OffChain \<Rightarrow> event list" where
  "offChainLines offChainData =
     (case oc_description offChainData of
        None \<Rightarrow> []
      | Some d \<Rightarrow> if d \<noteq> [] then [ConsoleLog ''Description:'' (Text (take 100 d @ ''...''))] else [])
     @ (case oc_image offChainData of
          None \<Rightarrow> []
        | Some i \<Rightarrow> if i \<noteq> [] then [ConsoleLog ''Image:'' (Text i)] else [])
     @ (case oc_external_url offChainData of
          None \<Rightarrow> []
        | Some u \<Rightarrow> if u \<noteq> [] then [ConsoleLog ''External URL:'' (Text u)] else [])
     @ (case oc_attributes offChainData of
          None \<Rightarrow> []
        | Some attributes \<Rightarrow>
            if length attributes > 0
            then ConsoleLine (Text ''Attributes:'')
                 # map (\<lambda>attr. ConsoleLine (AttributeLine (fst attr) (snd attr))) attributes
            else [])"

text \<open>Lines 206 to 239: the best-effort fetch of the URI. A response that is not \<^verbatim>\<open>ok\<close>
  and every exception inside the \<^verbatim>\<open>try\<close> end in the same warning.\<close>

definition offChainSection :: "(string \<Rightarrow> fetch_result) \<Rightarrow> Metadata \<Rightarrow> event list" where
  "offChainSection fetch metadata =
     (if md_uri metadata \<noteq> [] then
        SpinnerStart ''Fetching off-chain metadata...''
        # (case fetch (md_uri metadata) of
             FetchThrew err \<Rightarrow> [SpinnerWarn ''Could not fetch off-chain metadata'']
           | FetchResponse ok body \<Rightarrow>
               if ok then
                 (case body of
                    None \<Rightarrow> [SpinnerWarn ''Could not fetch off-chain metadata'']
                  | Some offChainData \<Rightarrow>
                      [SpinnerSucceed ''Off-chain metadata fetched'',
                       LogSeparator,
                       LogTitle ''OFF-CHAIN METADATA'']
                      @ offChainLines offChainData)
               else [SpinnerWarn ''Could not fetch off-chain metadata''])
      else [])"

text \<open>Lines 241 to 244.\<close>

definition noMetadataLines :: "event list" where
  "noMetadataLines =
     [LogSeparator,
      LogTitle ''METADATA INFORMATION'',
      ConsoleLine (Text ''No metadata found for this token''),
      ConsoleLine (Text ''This token was created without Metaplex metadata'')]"

text \<open>Lines 247 to 267: the local record, read only when it is truthy, so that reading its
  properties cannot throw.\<close>

definition localTokenInfo :: "jsval \<Rightarrow> event list" where
  "localTokenInfo tokenInfo =
     (if truthy tokenInfo then
        (let prop = (\<lambda>k. case getProp tokenInfo k of Some v \<Rightarrow> v | None \<Rightarrow> Undefined)
         in [LogSeparator,
             LogTitle ''LOCAL TOKEN INFO'',
             ConsoleLog ''Created:'' (LocaleDate (prop ''createdAt'')),
             ConsoleLog ''Tool Version:'' (Value (js_or (prop ''toolVersion'') (Str ''Unknown''))),
             ConsoleLog ''Wallet Used:'' (Value (js_or (prop ''walletFile'') (Str ''Unknown'')))]
            @ (if truthy (prop ''createTransaction'')
               then [ConsoleLog ''Create Tx:'' (Value (prop ''createTransaction''))] else [])
            @ (if truthy (prop ''lastUpdateDate'')
               then [ConsoleLog ''Last Updated:'' (LocaleDate (prop ''lastUpdateDate''))] else [])
            @ (if truthy (prop ''totalMinted'')
               then [ConsoleLog ''Total Minted:'' (LocaleNumber (prop ''totalMinted''))] else []))
      else [])"

text \<open>Lines 273 to 299: the answer to the last prompt.\<close>

definition nextAction :: "string \<Rightarrow> string \<Rightarrow> string \<Rightarrow> event list" where
  "nextAction tokenAddress network action =
     (if action = ''mint'' then [LogInfo ''Redirecting to mint tokens...'']
      else if action = ''update'' then [LogInfo ''Redirecting to update metadata...'']
      else if action = ''browser'' then
        (let urls = getExplorerUrls tokenAddress (Some ''address'') (Some network)
         in [LogInfo ''Explorer URLs:'',
             ConsoleLog ''Solana Explorer:'' (Text (solana urls)),
             ConsoleLog ''SolScan:'' (Text (solscan urls))])
      else [])"

text \<open>
  Lines 114 to 304: the inner \<^verbatim>\<open>try\<close>. An exception of the set-up or of \<^verbatim>\<open>getAccount\<close>
  reaches the \<^verbatim>\<open>catch\<close> of line 301, which marks the spinner as failed and throws it again.
  An exception of \<^verbatim>\<open>fetchMetadataFromSeeds\<close> is caught at line 166.
\<close>

definition checkToken_inspect :: "check_env \<Rightarrow> event list \<times> exit" where
  "checkToken_inspect env =
     (case env_setup env of
        Some msg \<Rightarrow>
          ([SpinnerStart ''Fetching token information...'',
            SpinnerFail ''Failed to fetch token information''], Thrown msg)
      | None \<Rightarrow>
          (case env_getAccount env of
             Inl msg \<Rightarrow>
               ([SpinnerStart ''Fetching token information...'',
                 SpinnerText ''Checking mint account...'',
                 SpinnerFail ''Failed to fetch token information''], Thrown msg)
           | Inr AccountMissing \<Rightarrow>
               ([SpinnerStart ''Fetching token information...'',
                 SpinnerText ''Checking mint account...'',
                 SpinnerFail ''Token mint account not found'',
                 LogError ''The specified token address does not exist on this network''], NotFound)
           | Inr (AccountExists mintData) \<Rightarrow>
               (let parsed = parseMintAccount mintData;
                    mintInfo = fst parsed
                in ([SpinnerStart ''Fetching token information...'',
                     SpinnerText ''Checking mint account...'',
                     SpinnerText ''Fetching mint account data...'']
                    @ snd parsed
                    @ [SpinnerText ''Fetching metadata...'']
                    @ (case env_fetchMetadataFromSeeds env of
                         Inr metadata \<Rightarrow> [SpinnerSucceed ''Token information fetched successfully'']
                       | Inl err \<Rightarrow> [SpinnerWarn ''Token exists but has no metadata''])
                    @ mintFacts (env_tokenAddress env) (env_network env) mintInfo
                    @ (case env_fetchMetadataFromSeeds env of
                         Inr metadata \<Rightarrow> metadataLines metadata @ offChainSection (env_fetch env) metadata
                       | Inl err \<Rightarrow> noMetadataLines)
                    @ localTokenInfo (env_tokenInfo env)
                    @ [LogSeparator]
                    @ displayExplorerLinks (env_tokenAddress env) (Some ''address'') (Some (env_network env))
                    @ nextAction (env_tokenAddress env) (env_network env) (env_action env),
                    Completed mintInfo (\<not> isl (env_fetchMetadataFromSeeds env))))))"

text \<open>Lines 306 to 321: the outer \<^verbatim>\<open>catch\<close> reports the exception, adds a hint and throws
  it again.\<close>

definition errorHints :: "string \<Rightarrow> event list" where
  "errorHints message =
     (if includes_str message ''account not found'' then
        [LogInfo ''The token address does not exist on the selected network'',
         LogInfo ''   - Check the address is correct'',
         LogInfo (''   - Make sure you'' @ [CHR 0x27] @ ''re on the right network'')]
      else if includes_str message ''Invalid address'' then
        [LogInfo ''Please enter a valid Solana address (32-44 characters)'']
      else if includes_str message ''network'' then
        [LogInfo ''Network connection issue - try again in a moment'']
      else [])"

definition checkToken :: "check_env \<Rightarrow> event list \<times> exit" where
  "checkToken env =
     (case checkToken_inspect env of
        (events, Thrown msg) \<Rightarrow>
          (events @ [LogError (''Token check failed: '' @ msg)] @ errorHints msg, Thrown msg)
      | (events, ex) \<Rightarrow> (events, ex))"

section \<open>The records of the store, and inputs for the examples\<close>

text \<open>
  The records that the store holds: the token files that load, with what they load to.
  A mint address matches a stored record when some record has it as \<open>mintAddress\<close>.
\<close>

definition stored_records :: "js_runtime \<Rightarrow> filesystem \<Rightarrow> (path \<times> jsval) list" where
  "stored_records rt fs =
     (case listTokens fs of
        Inl err \<Rightarrow> []
      | Inr files \<Rightarrow>
          List.map_filter
            (\<lambda>file. case loadJson rt fs file of Inl err \<Rightarrow> None | Inr data \<Rightarrow> Some (file, data))
            files)"

definition has_record_for :: "js_runtime \<Rightarrow> filesystem \<Rightarrow> jsval \<Rightarrow> bool" where
  "has_record_for rt fs tokenAddress =
     list_ex (\<lambda>r. getProp (snd r) ''mintAddress'' = Some tokenAddress) (stored_records rt fs)"

text \<open>A dereference of the URI has failed when \<^verbatim>\<open>fetch\<close> threw, when the response is not
  \<^verbatim>\<open>ok\<close> (as for a 404), or when its body is not JSON.\<close>

fun dereference_failed :: "fetch_result \<Rightarrow> bool" where
  "dereference_failed (FetchThrew err) = True"
| "dereference_failed (FetchResponse ok body) = (\<not> ok \<or> body = None)"

text \<open>A mint account of 82 bytes seen through a view that starts two bytes into its
  buffer: supply 513, 9 decimals, initialized.\<close>

definition demo_account :: Uint8Array where
  "demo_account =
     \<lparr>buffer = [7, 7] @ replicate 36 0 @ [1, 2, 0, 0, 0, 0, 0, 0, 9, 1] @ replicate 36 0,
      byteOffset = 2, array_length = 82\<rparr>"

text \<open>A token record, the text that \<^verbatim>\<open>JSON.stringify(record, null, 2)\<close> gives for it, and a
  runtime that knows the built-ins on these values.\<close>

definition demo_record :: jsval where
  "demo_record =
     Obj [(''name'', Str ''Demo''),
          (''symbol'', Str ''DMO''),
          (''mintAddress'', Str ''So11111111111111111111111111111111111111112''),
          (''mintAuthorityRevoked'', Bool True),
          (''freezeAuthorityRevoked'', Bool False)]"

definition demo_text :: string where
  \<open>demo_text = ''{\<newline>  "name": "Demo",\<newline>  "symbol": "DMO",\<newline>  "mintAddress": "So11111111111111111111111111111111111111112",\<newline>  "mintAuthorityRevoked": true,\<newline>  "freezeAuthorityRevoked": false\<newline>}''\<close>

definition demo_results :: RevokeResults where
  "demo_results =
     \<lparr>mintRevoked = Some False, mintRevokeSignature = None,
      freezeRevoked = Some True, freezeRevokeSignature = Some ''5VERv8NMvzbJMEkV8xnrLkEaWRtSz9CosKDYjCJjBRnb''\<rparr>"

text \<open>The record after a revocation in which mint failed and freeze succeeded, the text
  written for it (a property that is \<^verbatim>\<open>undefined\<close> is left out), and what that text
  parses to.\<close>

definition demo_updated :: jsval where
  "demo_updated =
     Obj [(''name'', Str ''Demo''),
          (''symbol'', Str ''DMO''),
          (''mintAddress'', Str ''So11111111111111111111111111111111111111112''),
          (''mintAuthorityRevoked'', Bool True),
          (''freezeAuthorityRevoked'', Bool True),
          (''mintRevokeTransaction'', Undefined),
          (''freezeRevokeTransaction'', Str ''5VERv8NMvzbJMEkV8xnrLkEaWRtSz9CosKDYjCJjBRnb''),
          (''lastRevokeDate'', Str ''2024-01-01T00:00:00.000Z'')]"

definition demo_updated_text :: string where
  \<open>demo_updated_text = ''{\<newline>  "name": "Demo",\<newline>  "symbol": "DMO",\<newline>  "mintAddress": "So11111111111111111111111111111111111111112",\<newline>  "mintAuthorityRevoked": true,\<newline>  "freezeAuthorityRevoked": true,\<newline>  "freezeRevokeTransaction": "5VERv8NMvzbJMEkV8xnrLkEaWRtSz9CosKDYjCJjBRnb",\<newline>  "lastRevokeDate": "2024-01-01T00:00:00.000Z"\<newline>}''\<close>

definition demo_reloaded :: jsval where
  "demo_reloaded =
     Obj [(''name'', Str ''Demo''),
          (''symbol'', Str ''DMO''),
          (''mintAddress'', Str ''So11111111111111111111111111111111111111112''),
          (''mintAuthorityRevoked'', Bool True),
          (''freezeAuthorityRevoked'', Bool True),
          (''freezeRevokeTransaction'', Str ''5VERv8NMvzbJMEkV8xnrLkEaWRtSz9CosKDYjCJjBRnb''),
          (''lastRevokeDate'', Str ''2024-01-01T00:00:00.000Z'')]"

definition demo_runtime :: js_runtime where
  "demo_runtime =
     \<lparr>JSON_parse = map_of [(demo_text, demo_record), (demo_updated_text, demo_reloaded)],
      JSON_stringify = map_of [(demo_record, demo_text), (demo_updated, demo_updated_text)],
      js_add = (\<lambda>a b. case (a, b) of (Num x, Num y) \<Rightarrow> Num (x + y) | _ \<Rightarrow> Undefined)\<rparr>"

definition demo_file :: path where
  "demo_file = [''tokens'', ''DMO-1700000000000.json'']"

definition demo_fs :: filesystem where
  "demo_fs = [([''tokens''], Dir), (demo_file, File demo_text)]"

definition demo_fs_updated :: filesystem where
  "demo_fs_updated = [([''tokens''], Dir), (demo_file, File demo_updated_text)]"

definition demo_no_attempt :: RevokeResults where
  "demo_no_attempt =
     \<lparr>mintRevoked = None, mintRevokeSignature = None,
      freezeRevoked = Some False, freezeRevokeSignature = None\<rparr>"

text \<open>
  A store in which two files hold a record of the same mint address: the first with mint
  authority revoked, the second, made by hand, without. The second record is chosen, the
  attempt to revoke the mint authority fails, and the patch writes to the first file.
\<close>

definition number_add :: "jsval \<Rightarrow> jsval \<Rightarrow> jsval" where
  "number_add a b = (case (a, b) of (Num x, Num y) \<Rightarrow> Num (x + y) | _ \<Rightarrow> Undefined)"

definition dup_chosen :: jsval where
  "dup_chosen =
     Obj [(''name'', Str ''Demo''),
          (''symbol'', Str ''DMO''),
          (''mintAddress'', Str ''So11111111111111111111111111111111111111112''),
          (''mintAuthorityRevoked'', Bool False),
          (''freezeAuthorityRevoked'', Bool False)]"

definition dup_chosen_text :: string where
  \<open>dup_chosen_text = ''{\<newline>  "name": "Demo",\<newline>  "symbol": "DMO",\<newline>  "mintAddress": "So11111111111111111111111111111111111111112",\<newline>  "mintAuthorityRevoked": false,\<newline>  "freezeAuthorityRevoked": false\<newline>}''\<close>

definition dup_file :: path where
  "dup_file = [''tokens'', ''DMO-1700000000001.json'']"

definition dup_fs :: filesystem where
  "dup_fs = [([''tokens''], Dir), (demo_file, File demo_text), (dup_file, File dup_chosen_text)]"

definition mint_failed :: RevokeResults where
  "mint_failed =
     \<lparr>mintRevoked = Some False, mintRevokeSignature = None,
      freezeRevoked = None, freezeRevokeSignature = None\<rparr>"

definition dup_written :: jsval where
  "dup_written =
     Obj [(''name'', Str ''Demo''),
          (''symbol'', Str ''DMO''),
          (''mintAddress'', Str ''So11111111111111111111111111111111111111112''),
          (''mintAuthorityRevoked'', Bool False),
          (''freezeAuthorityRevoked'', Bool False),
          (''mintRevokeTransaction'', Undefined),
          (''freezeRevokeTransaction'', Undefined),
          (''lastRevokeDate'', Str ''2024-01-01T00:00:00.000Z'')]"

definition dup_written_text :: string where
  \<open>dup_written_text = ''{\<newline>  "name": "Demo",\<newline>  "symbol": "DMO",\<newline>  "mintAddress": "So11111111111111111111111111111111111111112",\<newline>  "mintAuthorityRevoked": false,\<newline>  "freezeAuthorityRevoked": false,\<newline>  "lastRevokeDate": "2024-01-01T00:00:00.000Z"\<newline>}''\<close>

definition dup_reloaded :: jsval where
  "dup_reloaded =
     Obj [(''name'', Str ''Demo''),
          (''symbol'', Str ''DMO''),
          (''mintAddress'', Str ''So11111111111111111111111111111111111111112''),
          (''mintAuthorityRevoked'', Bool False),
          (''freezeAuthorityRevoked'', Bool False),
          (''lastRevokeDate'', Str ''2024-01-01T00:00:00.000Z'')]"

definition dup_fs_after :: filesystem where
  "dup_fs_after =
     [([''tokens''], Dir), (demo_file, File dup_written_text), (dup_file, File dup_chosen_text)]"

text \<open>Inspections: a mint without metadata, a mint that does not exist, a mint whose
  metadata points to a URI that answers 404, and a mint account of ten bytes.\<close>

definition demo_metadata :: Metadata where
  "demo_metadata =
     \<lparr>md_name = ''Demo'', md_symbol = ''DMO'', md_uri = ''https://example.org/demo.json'',
      md_updateAuthority = ''So11111111111111111111111111111111111111112'',
      md_isMutable = True, md_primarySaleHappened = False, md_sellerFeeBasisPoints = 0,
      md_tokenStandard = None, md_creators = None\<rparr>"

definition env_no_metadata :: check_env where
  "env_no_metadata =
     \<lparr>env_tokenAddress = ''So11111111111111111111111111111111111111112'',
      env_tokenInfo = Null,
      env_network = ''DEVNET'',
      env_setup = None,
      env_getAccount = Inr (AccountExists demo_account),
      env_fetchMetadataFromSeeds = Inl ''The account of type [Metadata] was not found'',
      env_fetch = (\<lambda>uri. FetchThrew ''unreachable''),
      env_action = ''back''\<rparr>"

definition env_missing :: check_env where
  "env_missing = env_no_metadata\<lparr>env_getAccount := Inr AccountMissing\<rparr>"

definition env_uri_404 :: check_env where
  "env_uri_404 =
     env_no_metadata\<lparr>env_fetchMetadataFromSeeds := Inr demo_metadata,
                     env_fetch := (\<lambda>uri. FetchResponse False None)\<rparr>"

definition env_short :: check_env where
  "env_short = env_no_metadata\<lparr>env_getAccount := Inr (AccountExists (from_bytes (replicate 10 0)))\<rparr>"

section \<open>The Account Decoder decodes the mint layout\<close>

lemma unat_ucast_byte: "unat (ucast (b::byte) :: u64) = unat b"
proof -
  have "unat b < 2 ^ 8" using unsigned_less [of b] by simp
  then have "unat b < 2 ^ 64" by simp
  then show ?thesis by (simp add: unsigned_ucast_eq take_bit_nat_eq_self)
qed

lemma ucast_byte_take_bit: "(ucast (ucast (w::u64) :: byte) :: u64) = take_bit 8 w"
  by (rule bit_word_eqI) (auto simp add: bit_simps)

lemma take_bit_split8:
  "take_bit 8 (w::u64) + push_bit 8 (take_bit (8 * k) (drop_bit 8 w)) = take_bit (8 + 8 * k) w"
proof -
  let ?v = "take_bit (8 + 8 * k) w"
  have "push_bit 8 (drop_bit 8 ?v) + take_bit 8 ?v = ?v" by (rule bits_ident)
  moreover have "drop_bit 8 ?v = take_bit (8 * k) (drop_bit 8 w)" by (simp add: drop_bit_take_bit)
  moreover have "take_bit 8 ?v = take_bit 8 w" by simp
  ultimately show ?thesis by (simp add: add.commute)
qed

lemma le_bytes_to_nat_bound: "le_bytes_to_nat bs < 256 ^ length bs"
proof (induction bs)
  case Nil
  show ?case by simp
next
  case (Cons b bs)
  have "unat b < 256" using unsigned_less [of b] by simp
  with Cons show ?case by simp
qed

lemma unat_le_bytes_to_u64:
  "length bs \<le> 8 \<Longrightarrow> unat (le_bytes_to_u64 bs) = le_bytes_to_nat bs"
proof (induction bs)
  case Nil
  show ?case by simp
next
  case (Cons b bs)
  have ih: "unat (le_bytes_to_u64 bs) = le_bytes_to_nat bs" using Cons by simp
  have b1: "le_bytes_to_nat (b # bs) < 256 ^ length (b # bs)" by (rule le_bytes_to_nat_bound)
  have "(256::nat) ^ length (b # bs) \<le> 256 ^ 8" using Cons.prems by (intro power_increasing) auto
  with b1 have b2: "le_bytes_to_nat (b # bs) < 2 ^ 64" by simp
  have "unat (le_bytes_to_u64 (b # bs)) = (unat b + 256 * le_bytes_to_nat bs) mod 2 ^ 64"
    by (simp add: unat_word_ariths push_bit_eq_mult ih mod_simps unat_ucast_byte mult.commute)
  with b2 show ?case by simp
qed

lemma le_bytes_to_nat_sum: "le_bytes_to_nat bs = (\<Sum>i<length bs. unat (bs ! i) * 256 ^ i)"
proof (induction bs)
  case Nil
  show ?case by simp
next
  case (Cons b bs)
  have "(\<Sum>i<length (b # bs). unat ((b # bs) ! i) * 256 ^ i)
        = unat b + (\<Sum>i<length bs. unat (bs ! i) * 256 ^ Suc i)"
    by (simp add: sum.lessThan_Suc_shift del: sum.lessThan_Suc)
  also have "\<dots> = unat b + 256 * (\<Sum>i<length bs. unat (bs ! i) * 256 ^ i)"
    by (simp add: sum_distrib_left mult.left_commute)
  finally show ?case by (simp add: Cons)
qed

lemma le_bytes_roundtrip: "le_bytes_to_u64 (u64_to_le_bytes k w) = take_bit (8 * k) w"
proof (induction k arbitrary: w)
  case 0
  show ?case by simp
next
  case (Suc k)
  show ?case by (simp add: Suc ucast_byte_take_bit take_bit_split8)
qed

lemma length_u64_to_le_bytes: "length (u64_to_le_bytes k w) = k"
  by (induction k arbitrary: w) auto

lemma le_bytes_roundtrip8: "le_bytes_to_u64 (u64_to_le_bytes 8 w) = w"
  using le_bytes_roundtrip [of 8 w] by (simp add: take_bit_word_eq_self)

lemma supply_window:
  assumes "valid_view a" "82 \<le> array_length a"
  shows "take 8 (drop (byteOffset a + 36) (buffer a)) = take 8 (drop 36 (elements a))"
  using assms by (simp add: elements_def drop_take add.commute)

lemma at_index_elements:
  assumes "valid_view a" "i < array_length a"
  shows "at_index a i = Some (elements a ! i)"
  using assms by (simp add: at_index_def elements_def valid_view_def)

lemma length_elements: "valid_view a \<Longrightarrow> length (elements a) = array_length a"
  by (simp add: elements_def valid_view_def)

lemma parseMintAccount_long:
  assumes "valid_view a" "82 \<le> array_length a"
  shows "parseMintAccount a =
     (Some \<lparr>supply = le_bytes_to_u64 (take 8 (drop 36 (elements a))),
            decimals = Some (elements a ! 44),
            isInitialized = (elements a ! 45 = 1)\<rparr>, [])"
proof -
  have fit: "byteOffset a + 36 + 8 \<le> length (buffer a)"
    using assms by (simp add: valid_view_def)
  have i44: "at_index a 44 = Some (elements a ! 44)" and i45: "at_index a 45 = Some (elements a ! 45)"
    using assms by (simp_all add: at_index_elements)
  show ?thesis
    using assms fit
    by (simp add: parseMintAccount_def new_DataView_def getBigUint64_def i44 i45 supply_window)
qed

lemma parseMintAccount_short: "array_length a < 82 \<Longrightarrow> parseMintAccount a = (None, [])"
  by (simp add: parseMintAccount_def)

lemma window_sum:
  assumes "44 \<le> length xs"
  shows "le_bytes_to_nat (take 8 (drop 36 xs)) = (\<Sum>i<8. unat (xs ! (36 + i)) * 256 ^ i)"
proof -
  have "le_bytes_to_nat (take 8 (drop 36 xs))
      = (\<Sum>i<8. unat (take 8 (drop 36 xs) ! i) * 256 ^ i)"
    using assms by (simp add: le_bytes_to_nat_sum del: sum.lessThan_Suc)
  also have "\<dots> = (\<Sum>i<8. unat (xs ! (36 + i)) * 256 ^ i)"
    using assms by (intro sum.cong) auto
  finally show ?thesis .
qed

lemma decode_fields:
  assumes h: "valid_view a \<and> 82 \<le> array_length a"
  shows "\<exists>m. parseMintAccount a = (Some m, [])
         \<and> unat (supply m) = (\<Sum>i<8. unat (elements a ! (36 + i)) * 256 ^ i)
         \<and> decimals m = Some (elements a ! 44)
         \<and> (isInitialized m \<longleftrightarrow> elements a ! 45 = 1)"
proof -
  from h have len: "44 \<le> length (elements a)" by (simp add: length_elements)
  have "unat (le_bytes_to_u64 (take 8 (drop 36 (elements a))))
      = (\<Sum>i<8. unat (elements a ! (36 + i)) * 256 ^ i)"
    using len by (simp add: unat_le_bytes_to_u64 window_sum del: sum.lessThan_Suc)
  then show ?thesis
    using h by (simp add: parseMintAccount_long del: sum.lessThan_Suc)
qed

lemma decode_encoded_supply:
  assumes h: "82 \<le> length bs"
  shows "map_option supply (fst (parseMintAccount (from_bytes (write_bytes 36 (u64_to_le_bytes 8 s) bs))))
        = Some s"
proof -
  let ?buf = "write_bytes 36 (u64_to_le_bytes 8 s) bs"
  have len: "length ?buf = length bs"
    using h by (simp add: write_bytes_def length_u64_to_le_bytes)
  have v: "valid_view (from_bytes ?buf)" and l: "82 \<le> array_length (from_bytes ?buf)"
    using h len by (simp_all add: valid_view_def from_bytes_def)
  have el: "elements (from_bytes ?buf) = ?buf" by (simp add: elements_def from_bytes_def)
  have "take 8 (drop 36 ?buf) = u64_to_le_bytes 8 s"
    using h by (simp add: write_bytes_def length_u64_to_le_bytes)
  then show ?thesis
    by (simp add: parseMintAccount_long [OF v l] el le_bytes_roundtrip8)
qed

lemma decode_zero_buffer:
  "parseMintAccount (from_bytes ((replicate 82 0)[45 := 1]))
        = (Some \<lparr>supply = 0, decimals = Some 0, isInitialized = True\<rparr>, [])"
proof -
  let ?z = "(replicate 82 (0::byte))[45 := 1]"
  have v: "valid_view (from_bytes ?z)" and l: "82 \<le> array_length (from_bytes ?z)"
    by (simp_all add: valid_view_def from_bytes_def)
  have el: "elements (from_bytes ?z) = ?z" by (simp add: elements_def from_bytes_def)
  have w: "take 8 (drop 36 ?z) = replicate 8 0"
    by (simp add: drop_update_swap take_update_cancel)
  have z0: "le_bytes_to_u64 (replicate 8 0) = 0" by code_simp
  have n44: "?z ! 44 = 0" and n45: "?z ! 45 = 1" by simp_all
  show ?thesis
    unfolding parseMintAccount_long [OF v l] el w z0 n44 n45 by simp
qed

text \<open>
  Claim C1. For a mint account of at least 82 bytes the decoder gives a snapshot and logs
  nothing: the supply is the number that the eight bytes from offset 36 on encode, least
  significant byte first; the decimals are the byte at offset 44; the flag is set exactly
  when the byte at offset 45 is 1. A supply written little-endian at offset 36 of such a
  buffer is read back unchanged, and 82 zero bytes with byte 45 set to 1 decode to supply
  0, decimals 0, initialized.
\<close>

theorem mint_account_decoding:
  "(valid_view a \<and> 82 \<le> array_length a \<longrightarrow>
      (\<exists>m. parseMintAccount a = (Some m, [])
         \<and> unat (supply m) = (\<Sum>i<8. unat (elements a ! (36 + i)) * 256 ^ i)
         \<and> decimals m = Some (elements a ! 44)
         \<and> (isInitialized m \<longleftrightarrow> elements a ! 45 = 1)))
   \<and> (82 \<le> length bs \<longrightarrow>
      map_option supply (fst (parseMintAccount (from_bytes (write_bytes 36 (u64_to_le_bytes 8 s) bs))))
        = Some s)
   \<and> parseMintAccount (from_bytes ((replicate 82 0)[45 := 1]))
        = (Some \<lparr>supply = 0, decimals = Some 0, isInitialized = True\<rparr>, [])"
  using decode_fields [of a] decode_encoded_supply [of bs s] decode_zero_buffer by blast

theorem mint_account_decoding_witness:
  "valid_view demo_account \<and> 82 \<le> array_length demo_account
   \<and> (\<exists>m. parseMintAccount demo_account = (Some m, []) \<and> unat (supply m) = 513
          \<and> decimals m = Some 9 \<and> isInitialized m)
   \<and> 82 \<le> length (replicate 82 (0::byte))
   \<and> map_option supply (fst (parseMintAccount
        (from_bytes (write_bytes 36 (u64_to_le_bytes 8 1000000) (replicate 82 0))))) = Some 1000000"
proof -
  have h: "valid_view demo_account \<and> 82 \<le> array_length demo_account"
    by (simp add: valid_view_def demo_account_def)
  have e: "elements demo_account = replicate 36 0 @ [1, 2, 0, 0, 0, 0, 0, 0, 9, 1] @ replicate 36 0"
    by (simp add: elements_def demo_account_def)
  have nth: "elements demo_account ! (36 + i)
       = ([1, 2, 0, 0, 0, 0, 0, 0, 9, 1] @ replicate 36 (0::byte)) ! i" for i
    unfolding e by (simp add: nth_append)
  have s: "(\<Sum>i<8. unat (elements demo_account ! (36 + i)) * 256 ^ i) = 513"
    unfolding nth by (simp add: lessThan_nat_numeral lessThan_Suc)
  have n44: "elements demo_account ! 44 = 9" and n45: "elements demo_account ! 45 = 1"
    using nth [of 8] nth [of 9] by simp_all
  have l: "82 \<le> length (replicate 82 (0::byte))" by simp
  from mint_account_decoding [of demo_account "replicate 82 0" 1000000] h l
  obtain m where m: "parseMintAccount demo_account = (Some m, [])"
      "unat (supply m) = (\<Sum>i<8. unat (elements demo_account ! (36 + i)) * 256 ^ i)"
      "decimals m = Some (elements demo_account ! 44)"
      "isInitialized m \<longleftrightarrow> elements demo_account ! 45 = 1"
    and r: "map_option supply (fst (parseMintAccount
        (from_bytes (write_bytes 36 (u64_to_le_bytes 8 1000000) (replicate 82 0))))) = Some 1000000"
    by blast
  from m have "\<exists>m. parseMintAccount demo_account = (Some m, []) \<and> unat (supply m) = 513
          \<and> decimals m = Some 9 \<and> isInitialized m"
    unfolding s n44 n45 by blast
  with h l r show ?thesis by blast
qed

section \<open>The Explorer Link Builder\<close>

lemma suffix_of_url: "suffix s (p @ t @ q @ a @ s)"
  by (simp add: suffix_def)

text \<open>
  Claim C3. For every address and type, a network that lower-cases to devnet or testnet
  gives two URLs, of Solana Explorer and of SolScan, that end in the query
  \<^verbatim>\<open>?cluster=\<close> followed by the lower-cased network; a network that lower-cases to mainnet
  gives the two URLs with nothing after the address. \<open>getNetworkCluster\<close> of the
  configuration module computes the same suffix.
\<close>

theorem explorer_links_cluster_suffix:
  "(toLowerCase network = ''devnet'' \<or> toLowerCase network = ''testnet'' \<longrightarrow>
      solana (getExplorerUrls address type_arg (Some network))
        = ''https://explorer.solana.com/'' @ (case type_arg of None \<Rightarrow> ''address'' | Some t \<Rightarrow> t)
          @ ''/'' @ address @ ''?cluster='' @ toLowerCase network
    \<and> solscan (getExplorerUrls address type_arg (Some network))
        = ''https://solscan.io/'' @ (case type_arg of None \<Rightarrow> ''address'' | Some t \<Rightarrow> t)
          @ ''/'' @ address @ ''?cluster='' @ toLowerCase network
    \<and> endsWith (solana (getExplorerUrls address type_arg (Some network))) (''?cluster='' @ toLowerCase network)
    \<and> endsWith (solscan (getExplorerUrls address type_arg (Some network))) (''?cluster='' @ toLowerCase network)
    \<and> getNetworkCluster (Some network) = ''?cluster='' @ toLowerCase network)
   \<and> (toLowerCase network = ''mainnet'' \<longrightarrow>
      solana (getExplorerUrls address type_arg (Some network))
        = ''https://explorer.solana.com/'' @ (case type_arg of None \<Rightarrow> ''address'' | Some t \<Rightarrow> t)
          @ ''/'' @ address
    \<and> solscan (getExplorerUrls address type_arg (Some network))
        = ''https://solscan.io/'' @ (case type_arg of None \<Rightarrow> ''address'' | Some t \<Rightarrow> t)
          @ ''/'' @ address
    \<and> getNetworkCluster (Some network) = [])"
proof (intro conjI impI)
  assume h: "toLowerCase network = ''devnet'' \<or> toLowerCase network = ''testnet''"
  then have ne: "toLowerCase network \<noteq> ''mainnet''" by auto
  show "solana (getExplorerUrls address type_arg (Some network))
        = ''https://explorer.solana.com/'' @ (case type_arg of None \<Rightarrow> ''address'' | Some t \<Rightarrow> t)
          @ ''/'' @ address @ ''?cluster='' @ toLowerCase network"
    using ne by (simp add: getExplorerUrls_def Let_def)
  show "solscan (getExplorerUrls address type_arg (Some network))
        = ''https://solscan.io/'' @ (case type_arg of None \<Rightarrow> ''address'' | Some t \<Rightarrow> t)
          @ ''/'' @ address @ ''?cluster='' @ toLowerCase network"
    using ne by (simp add: getExplorerUrls_def Let_def)
  show "endsWith (solana (getExplorerUrls address type_arg (Some network))) (''?cluster='' @ toLowerCase network)"
    using ne unfolding endsWith_def getExplorerUrls_def Let_def
    by (simp only: option.case if_False ExplorerUrls.simps suffix_of_url)
  show "endsWith (solscan (getExplorerUrls address type_arg (Some network))) (''?cluster='' @ toLowerCase network)"
    using ne unfolding endsWith_def getExplorerUrls_def Let_def
    by (simp only: option.case if_False ExplorerUrls.simps suffix_of_url)
  show "getNetworkCluster (Some network) = ''?cluster='' @ toLowerCase network"
    using ne by (simp add: getNetworkCluster_def)
next
  assume h: "toLowerCase network = ''mainnet''"
  show "solana (getExplorerUrls address type_arg (Some network))
        = ''https://explorer.solana.com/'' @ (case type_arg of None \<Rightarrow> ''address'' | Some t \<Rightarrow> t)
          @ ''/'' @ address"
    using h by (simp add: getExplorerUrls_def Let_def)
  show "solscan (getExplorerUrls address type_arg (Some network))
        = ''https://solscan.io/'' @ (case type_arg of None \<Rightarrow> ''address'' | Some t \<Rightarrow> t)
          @ ''/'' @ address"
    using h by (simp add: getExplorerUrls_def Let_def)
  show "getNetworkCluster (Some network) = []"
    using h by (simp add: getNetworkCluster_def)
qed

theorem explorer_links_cluster_suffix_witness:
  "(toLowerCase ''DEVNET'' = ''devnet'' \<or> toLowerCase ''DEVNET'' = ''testnet'')
   \<and> getExplorerUrls ''So11111111111111111111111111111111111111112'' (Some ''address'') (Some ''DEVNET'')
       = \<lparr>solana = ''https://explorer.solana.com/address/So11111111111111111111111111111111111111112?cluster=devnet'',
          solscan = ''https://solscan.io/address/So11111111111111111111111111111111111111112?cluster=devnet''\<rparr>
   \<and> toLowerCase ''MAINNET'' = ''mainnet''
   \<and> getExplorerUrls ''So11111111111111111111111111111111111111112'' (Some ''tx'') (Some ''MAINNET'')
       = \<lparr>solana = ''https://explorer.solana.com/tx/So11111111111111111111111111111111111111112'',
          solscan = ''https://solscan.io/tx/So11111111111111111111111111111111111111112''\<rparr>"
proof -
  have d: "toLowerCase ''DEVNET'' = ''devnet''" and m: "toLowerCase ''MAINNET'' = ''mainnet''"
    by (simp_all add: toLowerCase_def lower_char_def)
  have eq: "r = \<lparr>solana = solana r, solscan = solscan r\<rparr>" for r :: ExplorerUrls by simp
  show ?thesis
    using d m
      explorer_links_cluster_suffix [of "''DEVNET''" "''So11111111111111111111111111111111111111112''" "Some ''address''"]
      explorer_links_cluster_suffix [of "''MAINNET''" "''So11111111111111111111111111111111111111112''" "Some ''tx''"]
      eq [of "getExplorerUrls ''So11111111111111111111111111111111111111112'' (Some ''address'') (Some ''DEVNET'')"]
      eq [of "getExplorerUrls ''So11111111111111111111111111111111111111112'' (Some ''tx'') (Some ''MAINNET'')"]
    by simp
qed

section \<open>The address validator\<close>

lemma validateAddress_iff:
  "validateAddress v \<longleftrightarrow> (\<exists>s. v = Str s \<and> 32 \<le> length s \<and> length s \<le> 44)"
  by (cases v) (auto simp add: validateAddress_def)

text \<open>
  Claim C9. \<open>validateAddress\<close> accepts exactly the strings of 32 to 44 characters. It does
  not look at the characters: a string of 40 characters that contains \<^verbatim>\<open>0\<close> and \<^verbatim>\<open>!\<close>,
  neither of them in the base58 alphabet, is accepted.
\<close>

theorem validateAddress_checks_length_only:
  "(validateAddress v \<longleftrightarrow> (\<exists>s. v = Str s \<and> 32 \<le> length s \<and> length s \<le> 44))
   \<and> validateAddress (Str bad_address)
   \<and> length bad_address = 40
   \<and> CHR ''0'' \<in> set bad_address \<and> CHR ''!'' \<in> set bad_address
   \<and> \<not> is_base58 bad_address"
proof -
  have l: "length bad_address = 40" by (simp add: bad_address_def)
  have "validateAddress (Str bad_address)" unfolding validateAddress_iff using l by simp
  moreover have "CHR ''0'' \<in> set bad_address \<and> CHR ''!'' \<in> set bad_address"
    by (simp add: bad_address_def)
  moreover have "\<not> is_base58 bad_address"
    by (simp add: is_base58_def bad_address_def base58_alphabet_def)
  ultimately show ?thesis using l validateAddress_iff [of v] by blast
qed

theorem validateAddress_checks_length_only_witness:
  "validateAddress (Str ''So11111111111111111111111111111111111111112'')
   \<and> \<not> validateAddress (Str ''So1111'')
   \<and> \<not> validateAddress (Num 44)
   \<and> \<not> validateAddress Undefined
   \<and> validateAddress (Str bad_address)"
  using validateAddress_checks_length_only [of "Str ''So11111111111111111111111111111111111111112''"]
    validateAddress_checks_length_only [of "Str ''So1111''"]
    validateAddress_checks_length_only [of "Num 44"]
    validateAddress_checks_length_only [of Undefined]
  by simp

section \<open>The explorer table of the configuration has no entry for testnet\<close>

text \<open>
  Claim C10. \<open>getExplorerUrl\<close> throws a TypeError for the network TESTNET, in either case
  and for every type: \<open>CONFIG_EXPLORERS\<close> has entries for DEVNET and MAINNET only, although
  TESTNET is a network of \<open>CONFIG_NETWORK\<close>. For DEVNET and MAINNET it returns a URL.
\<close>

theorem getExplorerUrl_throws_on_testnet:
  "getExplorerUrl type_arg (Some ''TESTNET'') = Inl TypeError
   \<and> getExplorerUrl type_arg (Some ''testnet'') = Inl TypeError
   \<and> getNetworkUrl (Some ''TESTNET'') = Some ''https://api.testnet.solana.com''
   \<and> getExplorerUrl None (Some ''DEVNET'') = Inr ''https://explorer.solana.com?cluster=devnet''
   \<and> getExplorerUrl None (Some ''MAINNET'') = Inr ''https://explorer.solana.com''"
  by (simp add: getExplorerUrl_def getNetworkUrl_def CONFIG_EXPLORERS_def CONFIG_NETWORK_def
        toLowerCase_def toUpperCase_def lower_char_def upper_char_def)

section \<open>The Local Record Store: writing and reading back\<close>

lemma writeFileSync_result:
  assumes "writeFileSync fs p t = Inr fs'"
  shows "lookup_node fs' p = Some (File t)"
proof -
  have nd: "lookup_node fs p \<noteq> Some Dir"
    using assms by (auto simp add: writeFileSync_def split: option.splits node.splits)
  then have ne: "p \<noteq> []" by (auto simp add: lookup_node_def)
  have "fs' = AList.update p (File t) fs"
    using assms by (auto simp add: writeFileSync_def split: option.splits node.splits if_splits)
  then show ?thesis using ne by (simp add: lookup_node_def AList.update_conv')
qed

lemma saveJson_result:
  assumes "saveJson rt fs p d = Inr fs'"
  shows "\<exists>t. JSON_stringify rt d = Some t \<and> lookup_node fs' p = Some (File t)"
  using assms
  by (auto simp add: saveJson_def writeFileSync_result split: sum.splits option.splits)

section \<open>Patching a mint address that the store does not know\<close>

lemma strict_equals_eq: "strict_equals a b \<Longrightarrow> a = b"
  by (cases a) auto

lemma stored_records_member:
  assumes "listTokens fs = Inr files" "file \<in> set files" "loadJson rt fs file = Inr data"
  shows "(file, data) \<in> set (stored_records rt fs)"
  using assms by (force simp add: stored_records_def List.map_filter_def)

lemma no_match_when_no_record:
  assumes "\<not> has_record_for rt fs tokenAddress" "listTokens fs = Inr files" "file \<in> set files"
  shows "\<not> matchesMint rt fs tokenAddress file"
proof
  assume m: "matchesMint rt fs tokenAddress file"
  then obtain data v where d: "loadJson rt fs file = Inr data"
      "getProp data ''mintAddress'' = Some v" "strict_equals v tokenAddress"
    by (auto simp add: matchesMint_def split: sum.splits option.splits)
  then have "getProp data ''mintAddress'' = Some tokenAddress"
    using strict_equals_eq by blast
  moreover have "(file, data) \<in> set (stored_records rt fs)"
    using assms(2,3) d(1) by (rule stored_records_member)
  ultimately have "has_record_for rt fs tokenAddress"
    by (force simp add: has_record_for_def list_ex_iff)
  with assms(1) show False by simp
qed

lemma findTokenFile_not_found:
  assumes "\<not> has_record_for rt fs tokenAddress"
  shows "findTokenFile rt fs tokenAddress = (case listTokens fs of Inl err \<Rightarrow> Inl err | Inr files \<Rightarrow> Inr None)"
proof (cases "listTokens fs")
  case (Inl err)
  then show ?thesis by (simp add: findTokenFile_def)
next
  case (Inr files)
  have "find (matchesMint rt fs tokenAddress) files = None"
    using no_match_when_no_record [OF assms Inr] by (simp add: find_None_iff)
  with Inr show ?thesis by (simp add: findTokenFile_def)
qed

text \<open>
  Claim C4. When no record of the store has the mint address, the lookup that the patch
  starts with finds no file, and the patch after minting and the patch after revocation
  both leave the file system exactly as it was: no file is created and none is changed.
  Nothing is logged, except the warning when the token directory cannot be listed.
\<close>

theorem patch_of_unknown_mint_writes_nothing:
  "\<not> has_record_for rt fs tokenAddress \<longrightarrow>
     (\<forall>file. findTokenFile rt fs tokenAddress \<noteq> Inr (Some file))
   \<and> mintTokens_updateInfo rt fs tokenInfo tokenAddress amount now
       = (fs, if truthy tokenInfo \<and> isl (listTokens fs)
              then [LogWarning ''Could not update token info file''] else [])
   \<and> revokeAuthorities_updateInfo rt fs tokenInfo tokenAddress results now
       = (fs, if truthy tokenInfo \<and> isl (listTokens fs)
              then [LogWarning ''Could not update token info file''] else [])"
proof
  assume h: "\<not> has_record_for rt fs tokenAddress"
  note f = findTokenFile_not_found [OF h]
  show "(\<forall>file. findTokenFile rt fs tokenAddress \<noteq> Inr (Some file))
   \<and> mintTokens_updateInfo rt fs tokenInfo tokenAddress amount now
       = (fs, if truthy tokenInfo \<and> isl (listTokens fs)
              then [LogWarning ''Could not update token info file''] else [])
   \<and> revokeAuthorities_updateInfo rt fs tokenInfo tokenAddress results now
       = (fs, if truthy tokenInfo \<and> isl (listTokens fs)
              then [LogWarning ''Could not update token info file''] else [])"
    by (cases "listTokens fs")
       (simp_all add: f mintTokens_updateInfo_def revokeAuthorities_updateInfo_def)
qed

lemma demo_listing: "listTokens demo_fs = Inr [demo_file]"
  by (simp add: listTokens_def listFiles_def existsSync_def lookup_node_def CONFIG_PATHS_TOKENS_def
      demo_fs_def demo_file_def readdirSync_def path_join_def endsWith_def suffix_to_prefix)

lemma demo_load: "loadJson demo_runtime demo_fs demo_file = Inr demo_record"
  by (simp add: loadJson_def existsSync_def lookup_node_def demo_fs_def demo_file_def
      readFileSync_def demo_runtime_def)

theorem patch_of_unknown_mint_writes_nothing_witness:
  "\<not> has_record_for demo_runtime demo_fs (Str ''11111111111111111111111111111111'')
   \<and> findTokenFile demo_runtime demo_fs (Str ''11111111111111111111111111111111'') = Inr None
   \<and> mintTokens_updateInfo demo_runtime demo_fs demo_record (Str ''11111111111111111111111111111111'') (Num 5) ''2024-01-01T00:00:00.000Z''
       = (demo_fs, [])
   \<and> revokeAuthorities_updateInfo demo_runtime demo_fs demo_record (Str ''11111111111111111111111111111111'') demo_results ''2024-01-01T00:00:00.000Z''
       = (demo_fs, [])
   \<and> has_record_for demo_runtime demo_fs (Str ''So11111111111111111111111111111111111111112'')
   \<and> findTokenFile demo_runtime demo_fs (Str ''So11111111111111111111111111111111111111112'') = Inr (Some demo_file)"
proof -
  have sr: "stored_records demo_runtime demo_fs = [(demo_file, demo_record)]"
    by (simp add: stored_records_def demo_listing demo_load List.map_filter_def)
  have n: "\<not> has_record_for demo_runtime demo_fs (Str ''11111111111111111111111111111111'')"
    by (simp add: has_record_for_def sr demo_record_def)
  have y: "has_record_for demo_runtime demo_fs (Str ''So11111111111111111111111111111111111111112'')"
    by (simp add: has_record_for_def sr demo_record_def)
  have t: "truthy demo_record" by (simp add: demo_record_def)
  have f1: "findTokenFile demo_runtime demo_fs (Str ''11111111111111111111111111111111'') = Inr None"
    by (simp add: findTokenFile_def demo_listing matchesMint_def demo_load demo_record_def)
  have f2: "findTokenFile demo_runtime demo_fs (Str ''So11111111111111111111111111111111111111112'') = Inr (Some demo_file)"
    by (simp add: findTokenFile_def demo_listing matchesMint_def demo_load demo_record_def)
  show ?thesis
    using n y f1 f2 t demo_listing
      patch_of_unknown_mint_writes_nothing [where rt = demo_runtime and fs = demo_fs
        and tokenAddress = "Str ''11111111111111111111111111111111''" and tokenInfo = demo_record
        and amount = "Num 5" and now = "''2024-01-01T00:00:00.000Z''" and results = demo_results]
    by simp
qed

section \<open>Revoked flags stay revoked\<close>

lemma getProp_Some_not_Undefined:
  "getProp v k = Some x \<Longrightarrow> x \<noteq> Undefined \<Longrightarrow> \<exists>kvs. v = Obj kvs \<and> map_of kvs k = Some x"
  by (cases v) (auto split: option.splits)

lemma js_or_flag_True: "js_or (flag_value f) (Bool True) = Bool True"
  by (cases f) (auto simp add: js_or_def flag_value_def)

lemma revoke_updatedInfo_Obj:
  "revoke_updatedInfo (Obj kvs) results now =
     Some (Obj (set_props kvs
        [(''mintAuthorityRevoked'',
            js_or (flag_value (mintRevoked results)) (case map_of kvs ''mintAuthorityRevoked'' of Some v \<Rightarrow> v | None \<Rightarrow> Undefined)),
         (''freezeAuthorityRevoked'',
            js_or (flag_value (freezeRevoked results)) (case map_of kvs ''freezeAuthorityRevoked'' of Some v \<Rightarrow> v | None \<Rightarrow> Undefined)),
         (''mintRevokeTransaction'',
            js_or (text_value (mintRevokeSignature results)) (case map_of kvs ''mintRevokeTransaction'' of Some v \<Rightarrow> v | None \<Rightarrow> Undefined)),
         (''freezeRevokeTransaction'',
            js_or (text_value (freezeRevokeSignature results)) (case map_of kvs ''freezeRevokeTransaction'' of Some v \<Rightarrow> v | None \<Rightarrow> Undefined)),
         (''lastRevokeDate'', Str now)]))"
  by (simp add: revoke_updatedInfo_def)

lemma map_of_set_props5:
  "map_of (set_props kvs [(k1, v1), (k2, v2), (k3, v3), (k4, v4), (k5, v5)])
     = (map_of kvs)(k1 \<mapsto> v1, k2 \<mapsto> v2, k3 \<mapsto> v3, k4 \<mapsto> v4, k5 \<mapsto> v5)"
  by (simp add: set_props_def AList.update_conv')

lemma revoke_keeps_mint_flag:
  assumes "getProp tokenInfo ''mintAuthorityRevoked'' = Some (Bool True)"
  shows "\<exists>u. revoke_updatedInfo tokenInfo results now = Some u
            \<and> getProp u ''mintAuthorityRevoked'' = Some (Bool True)"
proof -
  obtain kvs where k: "tokenInfo = Obj kvs" "map_of kvs ''mintAuthorityRevoked'' = Some (Bool True)"
    using getProp_Some_not_Undefined [OF assms] by auto
  show ?thesis
    unfolding k(1) revoke_updatedInfo_Obj
    by (simp add: map_of_set_props5 k(2) js_or_flag_True)
qed

lemma revoke_keeps_freeze_flag:
  assumes "getProp tokenInfo ''freezeAuthorityRevoked'' = Some (Bool True)"
  shows "\<exists>u. revoke_updatedInfo tokenInfo results now = Some u
            \<and> getProp u ''freezeAuthorityRevoked'' = Some (Bool True)"
proof -
  obtain kvs where k: "tokenInfo = Obj kvs" "map_of kvs ''freezeAuthorityRevoked'' = Some (Bool True)"
    using getProp_Some_not_Undefined [OF assms] by auto
  show ?thesis
    unfolding k(1) revoke_updatedInfo_Obj
    by (simp add: map_of_set_props5 k(2) js_or_flag_True)
qed

lemma revoke_writes_updatedInfo:
  assumes "revokeAuthorities_updateInfo rt fs tokenInfo tokenAddress results now = (fs', evs)"
    and "LogInfo ''Token info updated with revocation details'' \<in> set evs"
  shows "\<exists>file u. findTokenFile rt fs tokenAddress = Inr (Some file)
           \<and> revoke_updatedInfo tokenInfo results now = Some u
           \<and> saveJson rt fs file u = Inr fs'"
  using assms
  by (auto simp add: revokeAuthorities_updateInfo_def split: if_splits sum.splits option.splits)

lemma demo_find:
  "findTokenFile demo_runtime demo_fs (Str ''So11111111111111111111111111111111111111112'') = Inr (Some demo_file)"
  by (simp add: findTokenFile_def demo_listing matchesMint_def demo_load demo_record_def)

lemma demo_revoke_updated:
  "revoke_updatedInfo demo_record demo_results ''2024-01-01T00:00:00.000Z'' = Some demo_updated"
  by (simp add: revoke_updatedInfo_def demo_record_def demo_results_def set_props_def
      js_or_def flag_value_def text_value_def demo_updated_def)

lemma demo_save_updated: "saveJson demo_runtime demo_fs demo_file demo_updated = Inr demo_fs_updated"
proof -
  have ne: "demo_updated \<noteq> demo_record" by (simp add: demo_updated_def demo_record_def)
  have st: "JSON_stringify demo_runtime demo_updated = Some demo_updated_text"
    using ne by (simp add: demo_runtime_def)
  show ?thesis
    by (simp add: saveJson_def st ensureDir_def existsSync_def lookup_node_def dirname_def
        demo_file_def demo_fs_def writeFileSync_def demo_fs_updated_def)
qed

lemma demo_revoke_patch:
  "revokeAuthorities_updateInfo demo_runtime demo_fs demo_record
      (Str ''So11111111111111111111111111111111111111112'') demo_results ''2024-01-01T00:00:00.000Z''
    = (demo_fs_updated, [LogInfo ''Token info updated with revocation details''])"
proof -
  have t: "truthy demo_record" by (simp add: demo_record_def)
  show ?thesis
    by (simp add: revokeAuthorities_updateInfo_def t demo_find demo_revoke_updated demo_save_updated)
qed

section \<open>The inspection report\<close>

lemma no_warning_mintFacts: "LogWarning m \<notin> set (mintFacts a n i)"
  by (simp add: mintFacts_def split: option.splits)

lemma no_warning_metadataLines: "LogWarning m \<notin> set (metadataLines md)"
  by (auto simp add: metadataLines_def split: option.splits)

lemma no_warning_offChainLines: "LogWarning m \<notin> set (offChainLines d)"
  by (auto simp add: offChainLines_def split: option.splits)

lemma no_warning_offChainSection: "LogWarning m \<notin> set (offChainSection f md)"
  by (auto simp add: offChainSection_def no_warning_offChainLines split: fetch_result.splits option.splits)

lemma no_warning_noMetadataLines: "LogWarning m \<notin> set noMetadataLines"
  by (simp add: noMetadataLines_def)

lemma no_warning_localTokenInfo: "LogWarning m \<notin> set (localTokenInfo t)"
  by (simp add: localTokenInfo_def Let_def)

lemma no_warning_displayExplorerLinks: "LogWarning m \<notin> set (displayExplorerLinks a t n)"
  by (simp add: displayExplorerLinks_def Let_def)

lemma no_warning_nextAction: "LogWarning m \<notin> set (nextAction a n c)"
  by (simp add: nextAction_def Let_def)

lemma no_supply_tail:
  "ConsoleLog ''Supply:'' v \<notin> set (metadataLines md)"
  "ConsoleLog ''Supply:'' v \<notin> set (offChainSection f md)"
  "ConsoleLog ''Supply:'' v \<notin> set noMetadataLines"
  "ConsoleLog ''Supply:'' v \<notin> set (localTokenInfo t)"
  "ConsoleLog ''Supply:'' v \<notin> set (displayExplorerLinks a ty n)"
  "ConsoleLog ''Supply:'' v \<notin> set (nextAction a nw c)"
  by (auto simp add: metadataLines_def offChainSection_def offChainLines_def noMetadataLines_def
      localTokenInfo_def displayExplorerLinks_def nextAction_def Let_def
      split: option.splits fetch_result.splits)

lemma inspect_existing:
  assumes "env_setup env = None" "env_getAccount env = Inr (AccountExists mintData)"
  shows "checkToken env =
    ([SpinnerStart ''Fetching token information...'',
      SpinnerText ''Checking mint account...'',
      SpinnerText ''Fetching mint account data...'']
     @ snd (parseMintAccount mintData)
     @ [SpinnerText ''Fetching metadata...'']
     @ (case env_fetchMetadataFromSeeds env of
          Inr metadata \<Rightarrow> [SpinnerSucceed ''Token information fetched successfully'']
        | Inl err \<Rightarrow> [SpinnerWarn ''Token exists but has no metadata''])
     @ mintFacts (env_tokenAddress env) (env_network env) (fst (parseMintAccount mintData))
     @ (case env_fetchMetadataFromSeeds env of
          Inr metadata \<Rightarrow> metadataLines metadata @ offChainSection (env_fetch env) metadata
        | Inl err \<Rightarrow> noMetadataLines)
     @ localTokenInfo (env_tokenInfo env)
     @ [LogSeparator]
     @ displayExplorerLinks (env_tokenAddress env) (Some ''address'') (Some (env_network env))
     @ nextAction (env_tokenAddress env) (env_network env) (env_action env),
     Completed (fst (parseMintAccount mintData)) (\<not> isl (env_fetchMetadataFromSeeds env)))"
  using assms by (simp add: checkToken_def checkToken_inspect_def Let_def)

lemma offChainSection_failed:
  assumes "md_uri metadata \<noteq> []" "dereference_failed (fetch (md_uri metadata))"
  shows "offChainSection fetch metadata =
     [SpinnerStart ''Fetching off-chain metadata...'', SpinnerWarn ''Could not fetch off-chain metadata'']"
  using assms by (cases "fetch (md_uri metadata)") (auto simp add: offChainSection_def)

lemma no_failure_in_sections:
  "SpinnerFail m \<notin> set (mintFacts a n i)"
  "SpinnerFail m \<notin> set noMetadataLines"
  "SpinnerFail m \<notin> set (localTokenInfo t)"
  "SpinnerFail m \<notin> set (displayExplorerLinks a ty nw)"
  "SpinnerFail m \<notin> set (nextAction a n c)"
  "SpinnerFail m \<notin> set (snd (parseMintAccount d))"
  by (auto simp add: mintFacts_def noMetadataLines_def localTokenInfo_def displayExplorerLinks_def
      nextAction_def parseMintAccount_def Let_def split: option.splits sum.splits)

lemma no_error_in_sections:
  "LogError m \<notin> set (mintFacts a n i)"
  "LogError m \<notin> set noMetadataLines"
  "LogError m \<notin> set (localTokenInfo t)"
  "LogError m \<notin> set (displayExplorerLinks a ty nw)"
  "LogError m \<notin> set (nextAction a n c)"
  "LogError m \<notin> set (snd (parseMintAccount d))"
  by (auto simp add: mintFacts_def noMetadataLines_def localTokenInfo_def displayExplorerLinks_def
      nextAction_def parseMintAccount_def Let_def split: option.splits sum.splits)

lemma inspect_missing:
  assumes "env_setup env = None" "env_getAccount env = Inr AccountMissing"
  shows "checkToken env =
    ([SpinnerStart ''Fetching token information...'',
      SpinnerText ''Checking mint account...'',
      SpinnerFail ''Token mint account not found'',
      LogError ''The specified token address does not exist on this network''], NotFound)"
  using assms by (simp add: checkToken_def checkToken_inspect_def)

lemma demo_parse:
  "parseMintAccount demo_account = (Some \<lparr>supply = 513, decimals = Some 9, isInitialized = True\<rparr>, [])"
proof -
  have v: "valid_view demo_account" and l: "82 \<le> array_length demo_account"
    by (simp_all add: valid_view_def demo_account_def)
  have e: "elements demo_account = replicate 36 0 @ [1, 2, 0, 0, 0, 0, 0, 0, 9, 1] @ replicate 36 0"
    by (simp add: elements_def demo_account_def)
  have w: "take 8 (drop 36 (elements demo_account)) = [1, 2, 0, 0, 0, 0, 0, 0]"
    unfolding e by simp
  have n: "elements demo_account ! 44 = 9" "elements demo_account ! 45 = 1"
    unfolding e by (simp_all add: nth_append)
  have s: "le_bytes_to_u64 [1, 2, 0, 0, 0, 0, 0, 0] = 513" by simp
  show ?thesis unfolding parseMintAccount_long [OF v l] w n s by simp
qed

lemma short_parse: "parseMintAccount (from_bytes (replicate 10 0)) = (None, [])"
  by (simp add: parseMintAccount_def from_bytes_def)

lemma devnet_links:
  "displayExplorerLinks ''So11111111111111111111111111111111111111112'' (Some ''address'') (Some ''DEVNET'')
    = [LogTitle ''EXPLORER LINKS'',
       ConsoleLog ''Solana Explorer:''
         (Text ''https://explorer.solana.com/address/So11111111111111111111111111111111111111112?cluster=devnet''),
       ConsoleLog ''SolScan:''
         (Text ''https://solscan.io/address/So11111111111111111111111111111111111111112?cluster=devnet''),
       LogSeparator]"
  by (simp add: displayExplorerLinks_def getExplorerUrls_def toLowerCase_def lower_char_def Let_def)

lemma short_report:
  "checkToken env_short =
     ([SpinnerStart ''Fetching token information...'',
       SpinnerText ''Checking mint account...'',
       SpinnerText ''Fetching mint account data...'',
       SpinnerText ''Fetching metadata...'',
       SpinnerWarn ''Token exists but has no metadata'',
       LogSeparator,
       LogTitle ''TOKEN INFORMATION'',
       ConsoleLog ''Token Address:'' (Text ''So11111111111111111111111111111111111111112''),
       ConsoleLog ''Network:'' (Text ''DEVNET''),
       ConsoleLog ''Mint Account:'' (Text ''Exists''),
       LogSeparator,
       LogTitle ''METADATA INFORMATION'',
       ConsoleLine (Text ''No metadata found for this token''),
       ConsoleLine (Text ''This token was created without Metaplex metadata''),
       LogSeparator,
       LogTitle ''EXPLORER LINKS'',
       ConsoleLog ''Solana Explorer:''
         (Text ''https://explorer.solana.com/address/So11111111111111111111111111111111111111112?cluster=devnet''),
       ConsoleLog ''SolScan:''
         (Text ''https://solscan.io/address/So11111111111111111111111111111111111111112?cluster=devnet''),
       LogSeparator],
      Completed None False)"
  by (simp add: checkToken_def checkToken_inspect_def env_short_def env_no_metadata_def short_parse
      mintFacts_def noMetadataLines_def localTokenInfo_def devnet_links nextAction_def)


subsection \<open>A token without metadata, and a mint that does not exist\<close>

text \<open>
  Claim C6. When the mint account exists and \<^verbatim>\<open>fetchMetadataFromSeeds\<close> throws, the
  inspection runs to its end with \<open>metadataExists\<close> false: it prints that the mint account
  exists, warns that the token has no metadata, prints the "no metadata" lines, and marks
  no failure and logs no error. When the mint account does not exist, the inspection
  stops at once with the failure "Token mint account not found".
\<close>

theorem missing_metadata_is_not_an_error:
  "(env_setup env = None \<and> env_getAccount env = Inr (AccountExists mintData)
      \<and> env_fetchMetadataFromSeeds env = Inl err \<longrightarrow>
      (\<exists>events. checkToken env = (events, Completed (fst (parseMintAccount mintData)) False)
         \<and> ConsoleLog ''Mint Account:'' (Text ''Exists'') \<in> set events
         \<and> SpinnerWarn ''Token exists but has no metadata'' \<in> set events
         \<and> ConsoleLine (Text ''No metadata found for this token'') \<in> set events
         \<and> (\<forall>m. SpinnerFail m \<notin> set events)
         \<and> (\<forall>m. LogError m \<notin> set events)))
   \<and> (env_setup env = None \<and> env_getAccount env = Inr AccountMissing \<longrightarrow>
      checkToken env =
        ([SpinnerStart ''Fetching token information...'',
          SpinnerText ''Checking mint account...'',
          SpinnerFail ''Token mint account not found'',
          LogError ''The specified token address does not exist on this network''], NotFound))"
proof (intro conjI impI)
  assume h: "env_setup env = None \<and> env_getAccount env = Inr (AccountExists mintData)
      \<and> env_fetchMetadataFromSeeds env = Inl err"
  then have eq: "checkToken env =
    ([SpinnerStart ''Fetching token information...'',
      SpinnerText ''Checking mint account...'',
      SpinnerText ''Fetching mint account data...'']
     @ snd (parseMintAccount mintData)
     @ [SpinnerText ''Fetching metadata...'']
     @ [SpinnerWarn ''Token exists but has no metadata'']
     @ mintFacts (env_tokenAddress env) (env_network env) (fst (parseMintAccount mintData))
     @ noMetadataLines
     @ localTokenInfo (env_tokenInfo env)
     @ [LogSeparator]
     @ displayExplorerLinks (env_tokenAddress env) (Some ''address'') (Some (env_network env))
     @ nextAction (env_tokenAddress env) (env_network env) (env_action env),
     Completed (fst (parseMintAccount mintData)) False)"
    by (simp add: inspect_existing [of env mintData])
  have m1: "ConsoleLog ''Mint Account:'' (Text ''Exists'')
      \<in> set (mintFacts (env_tokenAddress env) (env_network env) (fst (parseMintAccount mintData)))"
    by (simp add: mintFacts_def)
  have m2: "ConsoleLine (Text ''No metadata found for this token'') \<in> set noMetadataLines"
    by (simp add: noMetadataLines_def)
  have nf: "SpinnerFail m \<notin> set (fst (checkToken env))" for m
    unfolding eq fst_conv by (simp add: no_failure_in_sections)
  have ne: "LogError m \<notin> set (fst (checkToken env))" for m
    unfolding eq fst_conv by (simp add: no_error_in_sections)
  show "\<exists>events. checkToken env = (events, Completed (fst (parseMintAccount mintData)) False)
         \<and> ConsoleLog ''Mint Account:'' (Text ''Exists'') \<in> set events
         \<and> SpinnerWarn ''Token exists but has no metadata'' \<in> set events
         \<and> ConsoleLine (Text ''No metadata found for this token'') \<in> set events
         \<and> (\<forall>m. SpinnerFail m \<notin> set events)
         \<and> (\<forall>m. LogError m \<notin> set events)"
    using nf ne m1 m2 unfolding eq by simp
next
  assume "env_setup env = None \<and> env_getAccount env = Inr AccountMissing"
  then show "checkToken env =
        ([SpinnerStart ''Fetching token information...'',
          SpinnerText ''Checking mint account...'',
          SpinnerFail ''Token mint account not found'',
          LogError ''The specified token address does not exist on this network''], NotFound)"
    by (simp add: inspect_missing)
qed

theorem missing_metadata_is_not_an_error_witness:
  "env_setup env_no_metadata = None
   \<and> env_getAccount env_no_metadata = Inr (AccountExists demo_account)
   \<and> env_fetchMetadataFromSeeds env_no_metadata = Inl ''The account of type [Metadata] was not found''
   \<and> (\<exists>events. checkToken env_no_metadata
         = (events, Completed (Some \<lparr>supply = 513, decimals = Some 9, isInitialized = True\<rparr>) False)
        \<and> SpinnerWarn ''Token exists but has no metadata'' \<in> set events
        \<and> (\<forall>m. LogError m \<notin> set events))
   \<and> env_setup env_missing = None
   \<and> env_getAccount env_missing = Inr AccountMissing
   \<and> snd (checkToken env_missing) = NotFound"
proof -
  have a: "env_setup env_no_metadata = None
     \<and> env_getAccount env_no_metadata = Inr (AccountExists demo_account)
     \<and> env_fetchMetadataFromSeeds env_no_metadata = Inl ''The account of type [Metadata] was not found''"
    by (simp add: env_no_metadata_def)
  have b: "env_setup env_missing = None \<and> env_getAccount env_missing = Inr AccountMissing"
    by (simp add: env_missing_def env_no_metadata_def)
  note t1 = missing_metadata_is_not_an_error [of env_no_metadata demo_account
      "''The account of type [Metadata] was not found''"]
  note t2 = missing_metadata_is_not_an_error [of env_missing demo_account "''none''"]
  from t1 a have c1: "\<exists>events. checkToken env_no_metadata
         = (events, Completed (Some \<lparr>supply = 513, decimals = Some 9, isInitialized = True\<rparr>) False)
        \<and> SpinnerWarn ''Token exists but has no metadata'' \<in> set events
        \<and> (\<forall>m. LogError m \<notin> set events)"
    unfolding demo_parse fst_conv by blast
  from t2 b have c2: "snd (checkToken env_missing) = NotFound" by simp
  from a b c1 c2 show ?thesis by blast
qed


subsection \<open>A URI that cannot be fetched\<close>

text \<open>
  Claim C7. Let the mint account exist and the metadata have a URI. When the dereference
  of the URI fails, the inspection still runs to its end: after the mint facts and the
  metadata lines come the start of the fetch and the warning "Could not fetch off-chain
  metadata", then the rest of the report. Whatever \<^verbatim>\<open>fetch\<close> does, the lines before and
  after the off-chain section are the same; only that section differs.
\<close>

theorem failed_uri_fetch_degrades_gracefully:
  "env_setup env = None \<and> env_getAccount env = Inr (AccountExists mintData)
     \<and> env_fetchMetadataFromSeeds env = Inr metadata \<and> md_uri metadata \<noteq> [] \<longrightarrow>
   (dereference_failed (env_fetch env (md_uri metadata)) \<longrightarrow>
      checkToken env =
        (([SpinnerStart ''Fetching token information...'',
           SpinnerText ''Checking mint account...'',
           SpinnerText ''Fetching mint account data...'']
          @ snd (parseMintAccount mintData)
          @ [SpinnerText ''Fetching metadata...'',
             SpinnerSucceed ''Token information fetched successfully'']
          @ mintFacts (env_tokenAddress env) (env_network env) (fst (parseMintAccount mintData))
          @ metadataLines metadata)
         @ [SpinnerStart ''Fetching off-chain metadata...'',
            SpinnerWarn ''Could not fetch off-chain metadata'']
         @ (localTokenInfo (env_tokenInfo env)
            @ [LogSeparator]
            @ displayExplorerLinks (env_tokenAddress env) (Some ''address'') (Some (env_network env))
            @ nextAction (env_tokenAddress env) (env_network env) (env_action env)),
         Completed (fst (parseMintAccount mintData)) True))
   \<and> checkToken (env\<lparr>env_fetch := other_fetch\<rparr>) =
        (([SpinnerStart ''Fetching token information...'',
           SpinnerText ''Checking mint account...'',
           SpinnerText ''Fetching mint account data...'']
          @ snd (parseMintAccount mintData)
          @ [SpinnerText ''Fetching metadata...'',
             SpinnerSucceed ''Token information fetched successfully'']
          @ mintFacts (env_tokenAddress env) (env_network env) (fst (parseMintAccount mintData))
          @ metadataLines metadata)
         @ offChainSection other_fetch metadata
         @ (localTokenInfo (env_tokenInfo env)
            @ [LogSeparator]
            @ displayExplorerLinks (env_tokenAddress env) (Some ''address'') (Some (env_network env))
            @ nextAction (env_tokenAddress env) (env_network env) (env_action env)),
         Completed (fst (parseMintAccount mintData)) True)"
proof (intro impI conjI)
  assume h: "env_setup env = None \<and> env_getAccount env = Inr (AccountExists mintData)
     \<and> env_fetchMetadataFromSeeds env = Inr metadata \<and> md_uri metadata \<noteq> []"
  {
    assume f: "dereference_failed (env_fetch env (md_uri metadata))"
    show "checkToken env =
        (([SpinnerStart ''Fetching token information...'',
           SpinnerText ''Checking mint account...'',
           SpinnerText ''Fetching mint account data...'']
          @ snd (parseMintAccount mintData)
          @ [SpinnerText ''Fetching metadata...'',
             SpinnerSucceed ''Token information fetched successfully'']
          @ mintFacts (env_tokenAddress env) (env_network env) (fst (parseMintAccount mintData))
          @ metadataLines metadata)
         @ [SpinnerStart ''Fetching off-chain metadata...'',
            SpinnerWarn ''Could not fetch off-chain metadata'']
         @ (localTokenInfo (env_tokenInfo env)
            @ [LogSeparator]
            @ displayExplorerLinks (env_tokenAddress env) (Some ''address'') (Some (env_network env))
            @ nextAction (env_tokenAddress env) (env_network env) (env_action env)),
         Completed (fst (parseMintAccount mintData)) True)"
      using h f by (simp add: inspect_existing [of env mintData] offChainSection_failed)
  }
  show "checkToken (env\<lparr>env_fetch := other_fetch\<rparr>) =
        (([SpinnerStart ''Fetching token information...'',
           SpinnerText ''Checking mint account...'',
           SpinnerText ''Fetching mint account data...'']
          @ snd (parseMintAccount mintData)
          @ [SpinnerText ''Fetching metadata...'',
             SpinnerSucceed ''Token information fetched successfully'']
          @ mintFacts (env_tokenAddress env) (env_network env) (fst (parseMintAccount mintData))
          @ metadataLines metadata)
         @ offChainSection other_fetch metadata
         @ (localTokenInfo (env_tokenInfo env)
            @ [LogSeparator]
            @ displayExplorerLinks (env_tokenAddress env) (Some ''address'') (Some (env_network env))
            @ nextAction (env_tokenAddress env) (env_network env) (env_action env)),
         Completed (fst (parseMintAccount mintData)) True)"
    using h by (simp add: inspect_existing [of "env\<lparr>env_fetch := other_fetch\<rparr>" mintData])
qed

theorem failed_uri_fetch_degrades_gracefully_witness:
  "env_setup env_uri_404 = None
   \<and> env_getAccount env_uri_404 = Inr (AccountExists demo_account)
   \<and> env_fetchMetadataFromSeeds env_uri_404 = Inr demo_metadata
   \<and> md_uri demo_metadata \<noteq> []
   \<and> dereference_failed (env_fetch env_uri_404 (md_uri demo_metadata))
   \<and> snd (checkToken env_uri_404)
       = Completed (Some \<lparr>supply = 513, decimals = Some 9, isInitialized = True\<rparr>) True
   \<and> SpinnerWarn ''Could not fetch off-chain metadata'' \<in> set (fst (checkToken env_uri_404))
   \<and> ConsoleLog ''Supply:'' (BigUint 513) \<in> set (fst (checkToken env_uri_404))
   \<and> ConsoleLog ''Name:'' (Text ''Demo'') \<in> set (fst (checkToken env_uri_404))"
proof -
  have a: "env_setup env_uri_404 = None
     \<and> env_getAccount env_uri_404 = Inr (AccountExists demo_account)
     \<and> env_fetchMetadataFromSeeds env_uri_404 = Inr demo_metadata
     \<and> md_uri demo_metadata \<noteq> []"
    by (simp add: env_uri_404_def env_no_metadata_def demo_metadata_def)
  have f: "dereference_failed (env_fetch env_uri_404 (md_uri demo_metadata))"
    by (simp add: env_uri_404_def)
  note t = failed_uri_fetch_degrades_gracefully [of env_uri_404 demo_account demo_metadata
      "env_fetch env_uri_404"]
  from t a f have eq: "checkToken env_uri_404 =
        (([SpinnerStart ''Fetching token information...'',
           SpinnerText ''Checking mint account...'',
           SpinnerText ''Fetching mint account data...'']
          @ snd (parseMintAccount demo_account)
          @ [SpinnerText ''Fetching metadata...'',
             SpinnerSucceed ''Token information fetched successfully'']
          @ mintFacts (env_tokenAddress env_uri_404) (env_network env_uri_404) (fst (parseMintAccount demo_account))
          @ metadataLines demo_metadata)
         @ [SpinnerStart ''Fetching off-chain metadata...'',
            SpinnerWarn ''Could not fetch off-chain metadata'']
         @ (localTokenInfo (env_tokenInfo env_uri_404)
            @ [LogSeparator]
            @ displayExplorerLinks (env_tokenAddress env_uri_404) (Some ''address'') (Some (env_network env_uri_404))
            @ nextAction (env_tokenAddress env_uri_404) (env_network env_uri_404) (env_action env_uri_404)),
         Completed (fst (parseMintAccount demo_account)) True)"
    by blast
  have s: "ConsoleLog ''Supply:'' (BigUint 513)
      \<in> set (mintFacts (env_tokenAddress env_uri_404) (env_network env_uri_404) (fst (parseMintAccount demo_account)))"
    by (simp add: demo_parse mintFacts_def)
  have n: "ConsoleLog ''Name:'' (Text ''Demo'') \<in> set (metadataLines demo_metadata)"
    by (simp add: metadataLines_def demo_metadata_def)
  show ?thesis
    using a f s n unfolding eq by (simp add: demo_parse)
qed


subsection \<open>A mint account that is too short\<close>

text \<open>
  Claim C2, as the code has it. A mint account of fewer than 82 bytes is not decoded:
  \<open>mintInfo\<close> stays \<^verbatim>\<open>null\<close>, nothing is thrown and nothing is logged. The inspection goes on
  to its end; it prints that the mint account exists, leaves out the supply, and logs no
  warning at all. The warning "Could not parse mint account data details" is logged by
  the \<^verbatim>\<open>catch\<close> only, which a short buffer does not reach.
\<close>

theorem short_account_is_skipped_silently:
  "array_length mintData < 82 \<longrightarrow>
     parseMintAccount mintData = (None, [])
   \<and> (env_setup env = None \<and> env_getAccount env = Inr (AccountExists mintData) \<longrightarrow>
        (\<exists>events. checkToken env = (events, Completed None (\<not> isl (env_fetchMetadataFromSeeds env)))
           \<and> ConsoleLog ''Mint Account:'' (Text ''Exists'') \<in> set events
           \<and> (\<forall>v. ConsoleLog ''Supply:'' v \<notin> set events)
           \<and> (\<forall>m. LogWarning m \<notin> set events)))"
proof (intro impI conjI)
  assume s: "array_length mintData < 82"
  then show p: "parseMintAccount mintData = (None, [])" by (simp add: parseMintAccount_def)
  assume h: "env_setup env = None \<and> env_getAccount env = Inr (AccountExists mintData)"
  have eq: "checkToken env =
    ([SpinnerStart ''Fetching token information...'',
      SpinnerText ''Checking mint account...'',
      SpinnerText ''Fetching mint account data...'']
     @ [SpinnerText ''Fetching metadata...'']
     @ (case env_fetchMetadataFromSeeds env of
          Inr metadata \<Rightarrow> [SpinnerSucceed ''Token information fetched successfully'']
        | Inl err \<Rightarrow> [SpinnerWarn ''Token exists but has no metadata''])
     @ mintFacts (env_tokenAddress env) (env_network env) None
     @ (case env_fetchMetadataFromSeeds env of
          Inr metadata \<Rightarrow> metadataLines metadata @ offChainSection (env_fetch env) metadata
        | Inl err \<Rightarrow> noMetadataLines)
     @ localTokenInfo (env_tokenInfo env)
     @ [LogSeparator]
     @ displayExplorerLinks (env_tokenAddress env) (Some ''address'') (Some (env_network env))
     @ nextAction (env_tokenAddress env) (env_network env) (env_action env),
     Completed None (\<not> isl (env_fetchMetadataFromSeeds env)))"
    using h by (simp add: inspect_existing [of env mintData] p)
  have e: "ConsoleLog ''Mint Account:'' (Text ''Exists'')
      \<in> set (mintFacts (env_tokenAddress env) (env_network env) None)"
    by (simp add: mintFacts_def)
  have nosup: "ConsoleLog ''Supply:'' v \<notin> set (fst (checkToken env))" for v
    unfolding eq fst_conv
    by (cases "env_fetchMetadataFromSeeds env") (simp_all add: no_supply_tail mintFacts_def)
  have nowarn: "LogWarning m \<notin> set (fst (checkToken env))" for m
    unfolding eq fst_conv
    by (cases "env_fetchMetadataFromSeeds env")
       (simp_all add: no_warning_mintFacts no_warning_metadataLines no_warning_offChainSection
          no_warning_noMetadataLines no_warning_localTokenInfo no_warning_displayExplorerLinks
          no_warning_nextAction)
  show "\<exists>events. checkToken env = (events, Completed None (\<not> isl (env_fetchMetadataFromSeeds env)))
           \<and> ConsoleLog ''Mint Account:'' (Text ''Exists'') \<in> set events
           \<and> (\<forall>v. ConsoleLog ''Supply:'' v \<notin> set events)
           \<and> (\<forall>m. LogWarning m \<notin> set events)"
    using nosup nowarn e unfolding eq by simp
qed

theorem short_account_is_skipped_silently_witness:
  "array_length (from_bytes (replicate 10 0)) < 82
   \<and> parseMintAccount (from_bytes (replicate 10 0)) = (None, [])
   \<and> env_setup env_short = None
   \<and> env_getAccount env_short = Inr (AccountExists (from_bytes (replicate 10 0)))
   \<and> (\<exists>events. checkToken env_short = (events, Completed None False)
          \<and> ConsoleLog ''Mint Account:'' (Text ''Exists'') \<in> set events
          \<and> (\<forall>m. LogWarning m \<notin> set events))"
proof -
  have a: "array_length (from_bytes (replicate 10 (0::byte))) < 82"
    by (simp add: from_bytes_def)
  have b: "env_setup env_short = None
     \<and> env_getAccount env_short = Inr (AccountExists (from_bytes (replicate 10 0)))"
    by (simp add: env_short_def env_no_metadata_def)
  have i: "isl (env_fetchMetadataFromSeeds env_short)"
    by (simp add: env_short_def env_no_metadata_def)
  note t = short_account_is_skipped_silently [of "from_bytes (replicate 10 0)" env_short]
  from t a b i show ?thesis by auto
qed

text \<open>
  The report for a mint account of ten bytes, in full: no line says that the data could
  not be parsed.
\<close>

theorem short_account_no_report_counterexample:
  "array_length (from_bytes (replicate 10 0)) < 82
   \<and> LogWarning ''Could not parse mint account data details'' \<notin> set (fst (checkToken env_short))
   \<and> checkToken env_short =
     ([SpinnerStart ''Fetching token information...'',
       SpinnerText ''Checking mint account...'',
       SpinnerText ''Fetching mint account data...'',
       SpinnerText ''Fetching metadata...'',
       SpinnerWarn ''Token exists but has no metadata'',
       LogSeparator,
       LogTitle ''TOKEN INFORMATION'',
       ConsoleLog ''Token Address:'' (Text ''So11111111111111111111111111111111111111112''),
       ConsoleLog ''Network:'' (Text ''DEVNET''),
       ConsoleLog ''Mint Account:'' (Text ''Exists''),
       LogSeparator,
       LogTitle ''METADATA INFORMATION'',
       ConsoleLine (Text ''No metadata found for this token''),
       ConsoleLine (Text ''This token was created without Metaplex metadata''),
       LogSeparator,
       LogTitle ''EXPLORER LINKS'',
       ConsoleLog ''Solana Explorer:''
         (Text ''https://explorer.solana.com/address/So11111111111111111111111111111111111111112?cluster=devnet''),
       ConsoleLog ''SolScan:''
         (Text ''https://solscan.io/address/So11111111111111111111111111111111111111112?cluster=devnet''),
       LogSeparator],
      Completed None False)"
proof -
  have a: "array_length (from_bytes (replicate 10 (0::byte))) < 82"
    by (simp add: from_bytes_def)
  have n: "LogWarning ''Could not parse mint account data details'' \<notin> set (fst (checkToken env_short))"
    unfolding short_report by simp
  from a n short_report show ?thesis by blast
qed

section \<open>What the JSON parser reads from what the printer wrote\<close>

subsection \<open>Strings\<close>

lemma below_16_cases:
  "d < 16 \<Longrightarrow> d = 0 \<or> d = 1 \<or> d = 2 \<or> d = 3 \<or> d = 4 \<or> d = 5 \<or> d = 6 \<or> d = 7 \<or> d = 8
     \<or> d = 9 \<or> d = 10 \<or> d = 11 \<or> d = 12 \<or> d = 13 \<or> d = 14 \<or> d = (15::nat)"
  by arith

lemma below_10_cases:
  "d < 10 \<Longrightarrow> d = 0 \<or> d = 1 \<or> d = 2 \<or> d = 3 \<or> d = 4 \<or> d = 5 \<or> d = 6 \<or> d = 7 \<or> d = 8
     \<or> d = (9::nat)"
  by arith

lemma hex_value_hex_digit: "d < 16 \<Longrightarrow> hex_value (hex_digit d) = Some d"
  using below_16_cases [of d] by (auto simp add: hex_value_def hex_digit_def upt_conv_Cons)

lemma hex_value_zero: "hex_value CHR ''0'' = Some 0"
  using hex_value_hex_digit [of 0] by (simp add: hex_digit_def)

lemma digit_of_nat: "d < 10 \<Longrightarrow> is_digit (''0123456789'' ! d) \<and> digit_value (''0123456789'' ! d) = d
    \<and> (d \<noteq> 0 \<longrightarrow> ''0123456789'' ! d \<noteq> CHR ''0'')"
  using below_10_cases [of d] by (auto simp add: is_digit_def digit_value_def upt_conv_Cons)

lemma hex4_control:
  assumes "n < 32"
  shows "hex4 CHR ''0'' CHR ''0'' (hex_digit (n div 16)) (hex_digit (n mod 16)) = Some n"
proof -
  have "n div 16 < 16" using assms by simp
  then show ?thesis
    by (simp add: hex4_def hex_value_zero hex_value_hex_digit)
qed

lemma parse_escape_char:
  "parse_string_body (escape_char c @ rest)
     = map_option (\<lambda>r. (c # fst r, snd r)) (parse_string_body rest)"
proof -
  consider (q) "c = CHR 0x22" | (bs) "c = CHR 0x5C" | (b) "c = CHR 0x08" | (t) "c = CHR 0x09"
    | (n) "c = CHR 0x0A" | (f) "c = CHR 0x0C" | (r) "c = CHR 0x0D"
    | (ctl) "c \<notin> {CHR 0x22, CHR 0x5C, CHR 0x08, CHR 0x09, CHR 0x0A, CHR 0x0C, CHR 0x0D}" "(of_char c :: nat) < 32"
    | (plain) "c \<notin> {CHR 0x22, CHR 0x5C, CHR 0x08, CHR 0x09, CHR 0x0A, CHR 0x0C, CHR 0x0D}" "\<not> (of_char c :: nat) < 32"
    by blast
  then show ?thesis
  proof cases
    case ctl
    have lt: "(of_char c :: nat) < 256" using ctl(2) by simp
    show ?thesis
      using ctl lt by (simp add: escape_char_def hex4_control)
  next
    case plain
    then show ?thesis by (simp add: escape_char_def)
  qed (simp_all add: escape_char_def unescape_def)
qed

lemma parse_escaped_string:
  "parse_string_body (concat (map escape_char s) @ CHR 0x22 # rest) = Some (s, rest)"
  by (induction s) (simp_all add: parse_escape_char)

subsection \<open>Numbers\<close>

declare decimal.simps [simp del]

lemma decimal_digits: "decimal n \<noteq> [] \<and> (\<forall>c \<in> set (decimal n). is_digit c)"
proof (induction n rule: decimal.induct)
  case (1 n)
  show ?case
  proof (cases "n < 10")
    case True
    then show ?thesis using digit_of_nat [of n] by (subst decimal.simps, subst (2) decimal.simps) simp
  next
    case False
    have m: "n mod 10 < 10" by simp
    from False 1 have ih: "decimal (n div 10) \<noteq> [] \<and> (\<forall>c \<in> set (decimal (n div 10)). is_digit c)"
      by simp
    show ?thesis
      using False ih digit_of_nat [OF m]
      by (subst decimal.simps, subst (2) decimal.simps) simp
  qed
qed

lemma digits_value_snoc: "digits_value (ds @ [c]) = 10 * digits_value ds + digit_value c"
  by (simp add: digits_value_def)

lemma digits_value_decimal: "digits_value (decimal n) = n"
proof (induction n rule: decimal.induct)
  case (1 n)
  show ?case
  proof (cases "n < 10")
    case True
    then show ?thesis using digit_of_nat [of n] by (subst decimal.simps) (simp add: digits_value_def)
  next
    case False
    have m: "n mod 10 < 10" by simp
    from False 1 have ih: "digits_value (decimal (n div 10)) = n div 10" by simp
    show ?thesis
      using False ih digit_of_nat [OF m]
      by (subst decimal.simps) (simp add: digits_value_snoc)
  qed
qed

lemma decimal_no_leading_zero: "0 < n \<Longrightarrow> hd (decimal n) \<noteq> CHR ''0''"
proof (induction n rule: decimal.induct)
  case (1 n)
  show ?case
  proof (cases "n < 10")
    case True
    then show ?thesis using digit_of_nat [of n] 1(2) by (subst decimal.simps) simp
  next
    case False
    then have "0 < n div 10" by simp
    with False 1 have ih: "hd (decimal (n div 10)) \<noteq> CHR ''0''" by simp
    show ?thesis
      using False ih decimal_digits [of "n div 10"]
      by (subst decimal.simps) simp
  qed
qed

lemma decimal_zero: "decimal 0 = ''0''"
  by (subst decimal.simps) simp

lemma decimal_leading: "\<not> (length (decimal n) > 1 \<and> hd (decimal n) = CHR ''0'')"
proof (cases "n = 0")
  case True
  then show ?thesis by (simp add: decimal_zero)
next
  case False
  then show ?thesis using decimal_no_leading_zero [of n] by simp
qed

lemma takeWhile_digits:
  assumes "\<forall>c \<in> set ds. is_digit c" "value_end r"
  shows "takeWhile is_digit (ds @ r) = ds" "dropWhile is_digit (ds @ r) = r"
proof -
  have t: "takeWhile is_digit r = []" and d: "dropWhile is_digit r = r"
    using assms(2) by (cases r; simp add: value_end_def)+
  show "takeWhile is_digit (ds @ r) = ds" using assms(1) t by (simp add: takeWhile_append2)
  show "dropWhile is_digit (ds @ r) = r" using assms(1) d by (simp add: dropWhile_append2)
qed

lemma hd_decimal_not_minus: "hd (decimal n) \<noteq> CHR ''-''"
proof -
  have "is_digit (hd (decimal n))" using decimal_digits [of n] by (cases "decimal n") auto
  then show ?thesis by (auto simp add: is_digit_def)
qed

lemma parse_number_print_int:
  assumes "value_end r"
  shows "parse_number (print_int i @ r) = Some (Num i, r)"
proof (cases "i < 0")
  case True
  let ?ds = "decimal (nat (- i))"
  have tw: "takeWhile is_digit (?ds @ r) = ?ds" "dropWhile is_digit (?ds @ r) = r"
    using takeWhile_digits [OF _ assms] decimal_digits by blast+
  have ve: "\<not> (r \<noteq> [] \<and> hd r \<in> set ''.eE'')" using assms by (auto simp add: value_end_def)
  show ?thesis
    using True tw ve decimal_digits [of "nat (- i)"] decimal_leading [of "nat (- i)"]
    by (simp add: parse_number_def print_int_def Let_def digits_value_decimal)
next
  case False
  let ?ds = "decimal (nat i)"
  have tw: "takeWhile is_digit (?ds @ r) = ?ds" "dropWhile is_digit (?ds @ r) = r"
    using takeWhile_digits [OF _ assms] decimal_digits by blast+
  have ve: "\<not> (r \<noteq> [] \<and> hd r \<in> set ''.eE'')" using assms by (auto simp add: value_end_def)
  have nm: "hd (?ds @ r) \<noteq> CHR ''-''"
    using hd_decimal_not_minus [of "nat i"] decimal_digits [of "nat i"] by simp
  show ?thesis
    using False tw ve nm decimal_digits [of "nat i"] decimal_leading [of "nat i"]
    by (simp add: parse_number_def print_int_def Let_def digits_value_decimal)
qed

subsection \<open>One value at a time\<close>

lemma skip_ws_newline_indent: "skip_ws (newline_indent k @ s) = skip_ws s"
proof -
  have "dropWhile is_ws (replicate m CHR 0x20 @ s) = dropWhile is_ws s" for m
    by (induction m) (simp_all add: is_ws_def)
  then show ?thesis by (simp add: skip_ws_def newline_indent_def is_ws_def)
qed

lemma skip_ws_space: "skip_ws (CHR 0x20 # s) = skip_ws s"
  by (simp add: skip_ws_def is_ws_def)

lemma skip_ws_start: "s \<noteq> [] \<Longrightarrow> \<not> is_ws (hd s) \<Longrightarrow> skip_ws s = s"
  by (cases s) (simp_all add: skip_ws_def)

lemma skip_ws_starts_value: "starts_value s \<Longrightarrow> skip_ws s = s"
  by (simp add: starts_value_def skip_ws_start)

lemma parse_value_skips: "skip_ws s = skip_ws t \<Longrightarrow> parse_value f s = parse_value f t"
  by (cases f) simp_all

lemma parse_elements_skips: "skip_ws s = skip_ws t \<Longrightarrow> parse_elements f s = parse_elements f t"
  by (cases f) (simp_all add: parse_value_skips [of s t])

lemma parse_members_skips: "skip_ws s = skip_ws t \<Longrightarrow> parse_members f s = parse_members f t"
  by (cases f) simp_all

lemma hd_print_int: "print_int i \<noteq> [] \<and> (is_digit (hd (print_int i)) \<or> hd (print_int i) = CHR ''-'')"
proof -
  have "is_digit (hd (decimal n))" for n using decimal_digits [of n] by (cases "decimal n") auto
  then show ?thesis using decimal_digits by (simp add: print_int_def)
qed

lemma starts_value_print: "starts_value (print_value level v @ r)"
proof (cases v)
  case (Num i)
  obtain c cs where p: "print_int i = c # cs" using hd_print_int [of i] by (cases "print_int i") auto
  with hd_print_int [of i] have "is_digit c \<or> c = CHR ''-''" by simp
  then show ?thesis using Num p by (auto simp add: starts_value_def is_digit_def is_ws_def)
qed (simp_all add: starts_value_def is_ws_def quote_def)

lemma value_end_simps:
  "value_end []" "value_end (CHR '','' # s)" "value_end (newline_indent k @ s)"
  by (simp_all add: value_end_def is_digit_def newline_indent_def)

lemma parse_value_string: "parse_value (Suc f) (quote s @ r) = Some (Str s, r)"
  by (simp add: quote_def skip_ws_def is_ws_def parse_escaped_string)

lemma parse_value_null: "parse_value (Suc f) (''null'' @ r) = Some (Null, r)"
  by (simp add: skip_ws_def is_ws_def)

lemma parse_value_bool: "parse_value (Suc f) ((if b then ''true'' else ''false'') @ r) = Some (Bool b, r)"
  by (simp add: skip_ws_def is_ws_def)

lemma parse_value_number:
  assumes "value_end r"
  shows "parse_value (Suc f) (print_int i @ r) = Some (Num i, r)"
proof -
  obtain c cs where p: "print_int i = c # cs" using hd_print_int [of i] by (cases "print_int i") auto
  with hd_print_int [of i] have c: "is_digit c \<or> c = CHR ''-''" by simp
  then have nw: "\<not> is_ws c" by (auto simp add: is_digit_def is_ws_def)
  have sk: "skip_ws (c # cs @ r) = c # cs @ r" using nw by (simp add: skip_ws_def)
  have pn: "parse_number (c # cs @ r) = Some (Num i, r)"
    using parse_number_print_int [OF assms, of i] p by simp
  show ?thesis
    unfolding p using c by (auto simp add: sk pn is_digit_def)
qed

lemma parse_value_empty_array: "parse_value (Suc f) (''[]'' @ r) = Some (Arr [], r)"
  by (simp add: skip_ws_def is_ws_def)

lemma parse_value_empty_object: "parse_value (Suc f) (''{}'' @ r) = Some (Obj [], r)"
  by (simp add: skip_ws_def is_ws_def)

lemma parse_value_array:
  assumes "starts_value body"
  shows "parse_value (Suc f) (''['' @ newline_indent k @ body)
           = map_option (\<lambda>r. (Arr (fst r), snd r)) (parse_elements f body)"
proof -
  have sk: "skip_ws (newline_indent k @ body) = body"
    using assms by (simp add: skip_ws_newline_indent skip_ws_starts_value)
  have hd: "hd body \<noteq> CHR '']''" using assms by (simp add: starts_value_def)
  have pe: "parse_elements f (newline_indent k @ body) = parse_elements f body"
    by (rule parse_elements_skips) (simp add: skip_ws_newline_indent)
  show ?thesis
    using hd by (simp add: skip_ws_def [of "CHR ''['' # _"] is_ws_def sk pe)
qed

lemma parse_value_object:
  assumes "starts_value body"
  shows "parse_value (Suc f) (''{'' @ newline_indent k @ body)
           = map_option (\<lambda>r. (Obj (set_props [] (fst r)), snd r)) (parse_members f body)"
proof -
  have sk: "skip_ws (newline_indent k @ body) = body"
    using assms by (simp add: skip_ws_newline_indent skip_ws_starts_value)
  have hd: "hd body \<noteq> CHR ''}''" using assms by (simp add: starts_value_def)
  have pe: "parse_members f (newline_indent k @ body) = parse_members f body"
    by (rule parse_members_skips) (simp add: skip_ws_newline_indent)
  show ?thesis
    using hd by (simp add: skip_ws_def [of "CHR ''{'' # _"] is_ws_def sk pe)
qed

lemma parse_elements_last:
  assumes "parse_value f s = Some (v, newline_indent k @ CHR '']'' # r)"
  shows "parse_elements (Suc f) s = Some ([v], r)"
proof -
  have "skip_ws (newline_indent k @ CHR '']'' # r) = CHR '']'' # r"
    by (simp add: skip_ws_newline_indent) (simp add: skip_ws_def is_ws_def)
  then show ?thesis using assms by simp
qed

lemma parse_elements_more:
  assumes "parse_value f s = Some (v, CHR '','' # t)"
  shows "parse_elements (Suc f) s = map_option (\<lambda>more. (v # fst more, snd more)) (parse_elements f t)"
proof -
  have "skip_ws (CHR '','' # t) = CHR '','' # t" by (simp add: skip_ws_def is_ws_def)
  then show ?thesis using assms by simp
qed

lemma parse_members_head:
  "parse_members (Suc f) (quote k @ '': '' @ s)
     = (case parse_value f s of
          None \<Rightarrow> None
        | Some (v, r2) \<Rightarrow>
            (case skip_ws r2 of
               [] \<Rightarrow> None
             | c # r3 \<Rightarrow>
                 if c = CHR '','' then
                   map_option (\<lambda>more. ((k, v) # fst more, snd more)) (parse_members f r3)
                 else if c = CHR ''}'' then Some ([(k, v)], r3)
                 else None))"
proof -
  have a: "skip_ws (quote k @ '': '' @ s) = CHR 0x22 # concat (map escape_char k) @ CHR 0x22 # '': '' @ s"
    by (simp add: quote_def skip_ws_def is_ws_def)
  have b: "skip_ws ('': '' @ s) = CHR '':'' # CHR 0x20 # s" by (simp add: skip_ws_def is_ws_def)
  have c: "parse_value f (CHR 0x20 # s) = parse_value f s"
    by (rule parse_value_skips) (simp add: skip_ws_space)
  show ?thesis
    by (simp add: a parse_escaped_string b c del: append.simps)
qed

lemma parse_members_last:
  assumes "parse_value f s = Some (v, newline_indent l @ CHR ''}'' # r)"
  shows "parse_members (Suc f) (quote k @ '': '' @ s) = Some ([(k, v)], r)"
proof -
  have "skip_ws (newline_indent l @ CHR ''}'' # r) = CHR ''}'' # r"
    by (simp add: skip_ws_newline_indent) (simp add: skip_ws_def is_ws_def)
  then show ?thesis unfolding parse_members_head using assms by simp
qed

lemma parse_members_more:
  assumes "parse_value f s = Some (v, CHR '','' # t)"
  shows "parse_members (Suc f) (quote k @ '': '' @ s)
           = map_option (\<lambda>more. ((k, v) # fst more, snd more)) (parse_members f t)"
proof -
  have "skip_ws (CHR '','' # t) = CHR '','' # t" by (simp add: skip_ws_def is_ws_def)
  then show ?thesis unfolding parse_members_head using assms by simp
qed

subsection \<open>Every value that JSON represents\<close>

declare parse_value.simps [simp del] parse_elements.simps [simp del] parse_members.simps [simp del]

lemma join_cons: "xs \<noteq> [] \<Longrightarrow> join sep (x # xs) = x @ sep @ join sep xs"
  by (cases xs) simp_all

lemma parse_elements_join:
  assumes "xs \<noteq> []"
    and "\<And>x r f. x \<in> set xs \<Longrightarrow> value_end r \<Longrightarrow> length (print_value (Suc k) x) \<le> f
           \<Longrightarrow> parse_value f (print_value (Suc k) x @ r) = Some (x, r)"
    and "length (join (CHR '','' # newline_indent (Suc k)) (map (print_value (Suc k)) xs)) < f"
  shows "parse_elements f
           (join (CHR '','' # newline_indent (Suc k)) (map (print_value (Suc k)) xs)
            @ newline_indent k @ CHR '']'' # r) = Some (xs, r)"
  using assms
proof (induction xs arbitrary: f rule: list_nonempty_induct)
  case (single x)
  from single(2) obtain g where f: "f = Suc g" and g: "length (print_value (Suc k) x) \<le> g"
    by (cases f) auto
  have "parse_value g (print_value (Suc k) x @ newline_indent k @ CHR '']'' # r)
          = Some (x, newline_indent k @ CHR '']'' # r)"
    using single(1) [of x _ g] g by (simp add: value_end_simps)
  then show ?case unfolding f by (simp add: parse_elements_last)
next
  case (cons x xs)
  let ?sep = "CHR '','' # newline_indent (Suc k)"
  let ?rest = "join ?sep (map (print_value (Suc k)) xs) @ newline_indent k @ CHR '']'' # r"
  have j: "join ?sep (map (print_value (Suc k)) (x # xs))
             = print_value (Suc k) x @ ?sep @ join ?sep (map (print_value (Suc k)) xs)"
    using cons(1) by (simp add: join_cons)
  from cons(4) obtain g where f: "f = Suc g"
      and g1: "length (print_value (Suc k) x) \<le> g"
      and g2: "length (join ?sep (map (print_value (Suc k)) xs)) < g"
    unfolding j by (cases f) auto
  have pv: "parse_value g (print_value (Suc k) x @ CHR '','' # newline_indent (Suc k) @ ?rest)
          = Some (x, CHR '','' # newline_indent (Suc k) @ ?rest)"
    using cons(3) [of x _ g] g1 by (simp add: value_end_simps)
  have sk: "parse_elements g (newline_indent (Suc k) @ ?rest) = parse_elements g ?rest"
    by (rule parse_elements_skips) (simp add: skip_ws_newline_indent)
  have ih: "parse_elements g ?rest = Some (xs, r)"
    using cons(2) [of g] cons(3) g2 by simp
  have "parse_elements (Suc g) (print_value (Suc k) x @ CHR '','' # newline_indent (Suc k) @ ?rest)
          = Some (x # xs, r)"
    unfolding parse_elements_more [OF pv] sk ih by simp
  then show ?case unfolding f j by simp
qed

lemma parse_members_join:
  assumes "kvs \<noteq> []"
    and "\<And>kv r f. kv \<in> set kvs \<Longrightarrow> value_end r \<Longrightarrow> length (print_value (Suc k) (snd kv)) \<le> f
           \<Longrightarrow> parse_value f (print_value (Suc k) (snd kv) @ r) = Some (snd kv, r)"
    and "length (join (CHR '','' # newline_indent (Suc k))
           (map (\<lambda>kv. quote (fst kv) @ '': '' @ print_value (Suc k) (snd kv)) kvs)) < f"
  shows "parse_members f
           (join (CHR '','' # newline_indent (Suc k))
              (map (\<lambda>kv. quote (fst kv) @ '': '' @ print_value (Suc k) (snd kv)) kvs)
            @ newline_indent k @ CHR ''}'' # r) = Some (kvs, r)"
  using assms
proof (induction kvs arbitrary: f rule: list_nonempty_induct)
  case (single kv)
  from single(2) obtain g where f: "f = Suc g" and g: "length (print_value (Suc k) (snd kv)) \<le> g"
    by (cases f) auto
  have "parse_value g (print_value (Suc k) (snd kv) @ newline_indent k @ CHR ''}'' # r)
          = Some (snd kv, newline_indent k @ CHR ''}'' # r)"
    using single(1) [of kv _ g] g by (simp add: value_end_simps)
  from parse_members_last [OF this, of "fst kv"] show ?case unfolding f by simp
next
  case (cons kv kvs)
  let ?sep = "CHR '','' # newline_indent (Suc k)"
  let ?pr = "\<lambda>kv. quote (fst kv) @ '': '' @ print_value (Suc k) (snd kv)"
  let ?rest = "join ?sep (map ?pr kvs) @ newline_indent k @ CHR ''}'' # r"
  have j: "join ?sep (map ?pr (kv # kvs)) = ?pr kv @ ?sep @ join ?sep (map ?pr kvs)"
    using cons(1) by (simp add: join_cons)
  from cons(4) obtain g where f: "f = Suc g"
      and g1: "length (print_value (Suc k) (snd kv)) \<le> g"
      and g2: "length (join ?sep (map ?pr kvs)) < g"
    unfolding j by (cases f) auto
  have pv: "parse_value g (print_value (Suc k) (snd kv) @ CHR '','' # newline_indent (Suc k) @ ?rest)
          = Some (snd kv, CHR '','' # newline_indent (Suc k) @ ?rest)"
    using cons(3) [of kv _ g] g1 by (simp add: value_end_simps)
  have sk: "parse_members g (newline_indent (Suc k) @ ?rest) = parse_members g ?rest"
    by (rule parse_members_skips) (simp add: skip_ws_newline_indent)
  have ih: "parse_members g ?rest = Some (kvs, r)"
    using cons(2) [of g] cons(3) g2 by simp
  have "parse_members (Suc g)
          (quote (fst kv) @ '': '' @ print_value (Suc k) (snd kv) @ CHR '','' # newline_indent (Suc k) @ ?rest)
          = Some (kv # kvs, r)"
    unfolding parse_members_more [OF pv] sk ih by simp
  then show ?case unfolding f j by simp
qed

lemma update_fresh: "k \<notin> fst ` set acc \<Longrightarrow> AList.update k v acc = acc @ [(k, v)]"
  by (induction acc) auto

lemma set_props_distinct:
  "distinct (map fst (acc @ kvs)) \<Longrightarrow> set_props acc kvs = acc @ kvs"
proof (induction kvs arbitrary: acc)
  case Nil
  show ?case by (simp add: set_props_def)
next
  case (Cons kv kvs)
  have fresh: "fst kv \<notin> fst ` set acc" using Cons.prems by auto
  have "set_props acc (kv # kvs) = set_props (acc @ [kv]) kvs"
    using update_fresh [OF fresh, of "snd kv"] by (simp add: set_props_def)
  also have "\<dots> = (acc @ [kv]) @ kvs" using Cons.prems by (intro Cons.IH) simp
  finally show ?case by simp
qed

lemma print_nonempty: "0 < length (print_value level v)"
  using starts_value_print [of level v "[]"] by (simp add: starts_value_def)

lemma parse_print_value:
  "json_value v \<Longrightarrow> value_end r \<Longrightarrow> length (print_value level v) \<le> f
     \<Longrightarrow> parse_value f (print_value level v @ r) = Some (v, r)"
proof (induction v arbitrary: level r f)
  case Undefined
  then show ?case by simp
next
  case Null
  then obtain g where "f = Suc g" by (cases f) auto
  then show ?case using parse_value_null [of g r] by simp
next
  case (Bool b)
  then obtain g where "f = Suc g" by (cases f; cases b) auto
  then show ?case using parse_value_bool [of g b r] by simp
next
  case (Num i)
  from Num(3) print_nonempty [of level "Num i"] obtain g where "f = Suc g" by (cases f) auto
  then show ?case using parse_value_number [OF Num(2), of g i] by simp
next
  case (Str s)
  from Str(3) print_nonempty [of level "Str s"] obtain g where "f = Suc g" by (cases f) auto
  then show ?case using parse_value_string [of g s r] by simp
next
  case (Arr xs)
  from Arr(4) print_nonempty [of level "Arr xs"] obtain g where f: "f = Suc g" by (cases f) auto
  show ?case
  proof (cases "xs = []")
    case True
    then show ?thesis using parse_value_empty_array [of g r] f by simp
  next
    case False
    let ?sep = "CHR '','' # newline_indent (Suc level)"
    let ?body = "join ?sep (map (print_value (Suc level)) xs) @ newline_indent level @ CHR '']'' # r"
    obtain y ys where xs: "xs = y # ys" using False by (cases xs) auto
    have sv: "starts_value ?body"
      using starts_value_print [of "Suc level" y] unfolding xs
      by (cases ys) (simp_all add: starts_value_def)
    have len: "length (join ?sep (map (print_value (Suc level)) xs)) < g"
      using Arr(4) False unfolding f by (simp add: newline_indent_def)
    have el: "parse_elements g ?body = Some (xs, r)"
    proof (rule parse_elements_join [OF False _ len])
      fix x r' f'
      assume "x \<in> set xs" "value_end r'" "length (print_value (Suc level) x) \<le> f'"
      then show "parse_value f' (print_value (Suc level) x @ r') = Some (x, r')"
        using Arr(1) [of x r' "Suc level" f'] Arr(2) by simp
    qed
    have "parse_value (Suc g) (''['' @ newline_indent (Suc level) @ ?body) = Some (Arr xs, r)"
      unfolding parse_value_array [OF sv] el by simp
    then show ?thesis using False unfolding f by simp
  qed
next
  case (Obj kvs)
  from Obj(4) print_nonempty [of level "Obj kvs"] obtain g where f: "f = Suc g" by (cases f) auto
  have keep: "filter (\<lambda>kv. snd kv \<noteq> Undefined) kvs = kvs"
    using Obj(2) by (auto simp add: filter_id_conv)
  have dist: "set_props [] kvs = kvs"
    using Obj(2) set_props_distinct [of "[]" kvs] by simp
  show ?case
  proof (cases "kvs = []")
    case True
    then show ?thesis using parse_value_empty_object [of g r] f by simp
  next
    case False
    let ?sep = "CHR '','' # newline_indent (Suc level)"
    let ?pr = "\<lambda>kv. quote (fst kv) @ '': '' @ print_value (Suc level) (snd kv)"
    let ?body = "join ?sep (map ?pr kvs) @ newline_indent level @ CHR ''}'' # r"
    obtain y ys where kvs: "kvs = y # ys" using False by (cases kvs) auto
    have sv: "starts_value ?body"
      unfolding kvs by (cases ys) (simp_all add: starts_value_def quote_def is_ws_def)
    have len: "length (join ?sep (map ?pr kvs)) < g"
      using Obj(4) False unfolding f by (simp add: keep newline_indent_def)
    have el: "parse_members g ?body = Some (kvs, r)"
    proof (rule parse_members_join [OF False _ len])
      fix kv r' f'
      assume a: "kv \<in> set kvs" "value_end r'" "length (print_value (Suc level) (snd kv)) \<le> f'"
      have "snd kv \<in> Basic_BNFs.snds kv" by (cases kv) simp
      then show "parse_value f' (print_value (Suc level) (snd kv) @ r') = Some (snd kv, r')"
        using Obj(1) [of kv "snd kv" r' "Suc level" f'] Obj(2) a by simp
    qed
    have "parse_value (Suc g) (''{'' @ newline_indent (Suc level) @ ?body) = Some (Obj kvs, r)"
      unfolding parse_value_object [OF sv] el by (simp add: dist)
    then show ?thesis using False unfolding f by (simp add: keep)
  qed
qed

lemma JSON_roundtrip:
  assumes "json_value v"
  shows "\<exists>t. JSON_stringify_text v = Some t \<and> JSON_parse_text t = Some v"
proof -
  have nu: "v \<noteq> Undefined" using assms by auto
  have "parse_value (Suc (length (print_value 0 v))) (print_value 0 v @ []) = Some (v, [])"
    by (rule parse_print_value [OF assms]) (simp_all add: value_end_simps)
  then have "JSON_parse_text (print_value 0 v) = Some v"
    by (simp add: JSON_parse_text_def skip_ws_def)
  then show ?thesis using nu by (simp add: JSON_stringify_text_def)
qed

lemma print_demo_record: "JSON_stringify_text demo_record = Some demo_text"
  by code_simp

lemma print_dup_chosen: "JSON_stringify_text dup_chosen = Some dup_chosen_text"
  by code_simp

lemma print_dup_written: "JSON_stringify_text dup_written = Some dup_written_text"
  by code_simp

lemma print_dup_reloaded: "JSON_stringify_text dup_reloaded = Some dup_written_text"
  by code_simp

lemma json_value_demo: "json_value demo_record" "json_value dup_chosen" "json_value dup_reloaded"
  by (simp_all add: demo_record_def dup_chosen_def dup_reloaded_def index_like_def is_digit_def)

section \<open>The Local Record Store: a record written is the record read\<close>

lemma loadJson_of_text:
  assumes "lookup_node fs p = Some (File t)"
  shows "loadJson rt fs p = (case JSON_parse rt t of None \<Rightarrow> Inl SyntaxError | Some v \<Rightarrow> Inr v)"
  using assms by (simp add: loadJson_def existsSync_def readFileSync_def)

lemma parse_printed:
  assumes "json_value v" "JSON_stringify_text v = Some t"
  shows "JSON_parse_text t = Some v"
  using JSON_roundtrip [OF assms(1)] assms(2) by simp

text \<open>
  Claim C8. Let a record be a value that JSON represents, and let \<open>saveJson\<close> have written
  it to a file. Then \<open>loadJson\<close> of the same file returns the record, equal in every
  field: the file holds the text that \<^verbatim>\<open>JSON.stringify\<close> gave, and \<^verbatim>\<open>JSON.parse\<close> reads that
  text back to the value.
\<close>

theorem save_then_load_roundtrip:
  "json_value d \<and> saveJson (node_runtime add) fs p d = Inr fs'
     \<longrightarrow> loadJson (node_runtime add) fs' p = Inr d"
proof
  assume h: "json_value d \<and> saveJson (node_runtime add) fs p d = Inr fs'"
  then obtain t where t: "JSON_stringify (node_runtime add) d = Some t" "lookup_node fs' p = Some (File t)"
    using saveJson_result by blast
  from t(1) have "JSON_stringify_text d = Some t" by (simp add: node_runtime_def)
  with h have "JSON_parse_text t = Some d" using parse_printed by blast
  then have "JSON_parse (node_runtime add) t = Some d" by (simp add: node_runtime_def)
  with t(2) show "loadJson (node_runtime add) fs' p = Inr d"
    by (simp add: loadJson_of_text)
qed

theorem save_then_load_roundtrip_witness:
  "json_value demo_record
   \<and> saveJson (node_runtime number_add) [] demo_file demo_record = Inr demo_fs
   \<and> loadJson (node_runtime number_add) demo_fs demo_file = Inr demo_record"
proof -
  have s: "saveJson (node_runtime number_add) [] demo_file demo_record = Inr demo_fs"
    by (simp add: saveJson_def ensureDir_def existsSync_def lookup_node_def dirname_def demo_file_def
      mkdirSync_recursive_def node_runtime_def print_demo_record writeFileSync_def demo_fs_def)
  show ?thesis
    using json_value_demo(1) s
      save_then_load_roundtrip [of demo_record number_add "[]" demo_file demo_fs] by simp
qed

section \<open>Revoked flags and the stored record\<close>

lemma revoke_patch_cases:
  assumes "findTokenFile rt fs tokenAddress = Inr (Some tokenFile)"
    and "revokeAuthorities_updateInfo rt fs tokenInfo tokenAddress results now = (fs', evs)"
  shows "fs' = fs \<or> (\<exists>u t. revoke_updatedInfo tokenInfo results now = Some u
            \<and> JSON_stringify rt u = Some t \<and> readFileSync fs' tokenFile = Inr t)"
proof (cases "fs' = fs")
  case True
  then show ?thesis by simp
next
  case False
  then obtain u where u: "revoke_updatedInfo tokenInfo results now = Some u"
      and s: "saveJson rt fs tokenFile u = Inr fs'"
    using assms
    by (auto simp add: revokeAuthorities_updateInfo_def split: if_splits sum.splits option.splits)
  from saveJson_result [OF s] obtain t where t: "JSON_stringify rt u = Some t"
      "lookup_node fs' tokenFile = Some (File t)" by blast
  then have "readFileSync fs' tokenFile = Inr t" by (simp add: readFileSync_def)
  with u t(1) show ?thesis by blast
qed

text \<open>
  Claim C5, as the code has it. The record that a revocation writes is built from
  \<open>tokenInfo\<close>, the record loaded when the token was chosen: a flag that is \<^verbatim>\<open>true\<close> there
  is \<^verbatim>\<open>true\<close> in the record written, whatever the new attempt gave. The file written is
  the first one with the mint address. When that file holds the chosen record, as it does
  when each mint address has one file, the flags of the stored record are monotonic: after
  the patch the file is unchanged, or it holds the text of a record in which every flag
  that was \<^verbatim>\<open>true\<close> before is \<^verbatim>\<open>true\<close>.
\<close>

theorem revoked_flags_stay_true:
  "(getProp tokenInfo ''mintAuthorityRevoked'' = Some (Bool True) \<longrightarrow>
      (\<exists>u. revoke_updatedInfo tokenInfo results now = Some u
          \<and> getProp u ''mintAuthorityRevoked'' = Some (Bool True)))
   \<and> (getProp tokenInfo ''freezeAuthorityRevoked'' = Some (Bool True) \<longrightarrow>
      (\<exists>u. revoke_updatedInfo tokenInfo results now = Some u
          \<and> getProp u ''freezeAuthorityRevoked'' = Some (Bool True)))
   \<and> (revokeAuthorities_updateInfo rt fs tokenInfo tokenAddress results now = (fs', evs)
        \<and> LogInfo ''Token info updated with revocation details'' \<in> set evs \<longrightarrow>
      (\<exists>file u. findTokenFile rt fs tokenAddress = Inr (Some file)
           \<and> revoke_updatedInfo tokenInfo results now = Some u
           \<and> saveJson rt fs file u = Inr fs'))
   \<and> (findTokenFile rt fs tokenAddress = Inr (Some tokenFile)
        \<and> loadJson rt fs tokenFile = Inr tokenInfo
        \<and> revokeAuthorities_updateInfo rt fs tokenInfo tokenAddress results now = (fs', evs) \<longrightarrow>
      fs' = fs
      \<or> (\<exists>u t. revoke_updatedInfo tokenInfo results now = Some u
            \<and> JSON_stringify rt u = Some t
            \<and> readFileSync fs' tokenFile = Inr t
            \<and> (getProp tokenInfo ''mintAuthorityRevoked'' = Some (Bool True)
                 \<longrightarrow> getProp u ''mintAuthorityRevoked'' = Some (Bool True))
            \<and> (getProp tokenInfo ''freezeAuthorityRevoked'' = Some (Bool True)
                 \<longrightarrow> getProp u ''freezeAuthorityRevoked'' = Some (Bool True))))"
proof (intro conjI impI)
  assume "getProp tokenInfo ''mintAuthorityRevoked'' = Some (Bool True)"
  then show "\<exists>u. revoke_updatedInfo tokenInfo results now = Some u
          \<and> getProp u ''mintAuthorityRevoked'' = Some (Bool True)"
    by (rule revoke_keeps_mint_flag)
next
  assume "getProp tokenInfo ''freezeAuthorityRevoked'' = Some (Bool True)"
  then show "\<exists>u. revoke_updatedInfo tokenInfo results now = Some u
          \<and> getProp u ''freezeAuthorityRevoked'' = Some (Bool True)"
    by (rule revoke_keeps_freeze_flag)
next
  assume "revokeAuthorities_updateInfo rt fs tokenInfo tokenAddress results now = (fs', evs)
        \<and> LogInfo ''Token info updated with revocation details'' \<in> set evs"
  then show "\<exists>file u. findTokenFile rt fs tokenAddress = Inr (Some file)
           \<and> revoke_updatedInfo tokenInfo results now = Some u
           \<and> saveJson rt fs file u = Inr fs'"
    using revoke_writes_updatedInfo by blast
next
  assume h: "findTokenFile rt fs tokenAddress = Inr (Some tokenFile)
        \<and> loadJson rt fs tokenFile = Inr tokenInfo
        \<and> revokeAuthorities_updateInfo rt fs tokenInfo tokenAddress results now = (fs', evs)"
  from revoke_patch_cases [of rt fs tokenAddress tokenFile tokenInfo results now fs' evs] h
  consider "fs' = fs"
    | u t where "revoke_updatedInfo tokenInfo results now = Some u" "JSON_stringify rt u = Some t"
        "readFileSync fs' tokenFile = Inr t"
    by blast
  then show "fs' = fs
      \<or> (\<exists>u t. revoke_updatedInfo tokenInfo results now = Some u
            \<and> JSON_stringify rt u = Some t
            \<and> readFileSync fs' tokenFile = Inr t
            \<and> (getProp tokenInfo ''mintAuthorityRevoked'' = Some (Bool True)
                 \<longrightarrow> getProp u ''mintAuthorityRevoked'' = Some (Bool True))
            \<and> (getProp tokenInfo ''freezeAuthorityRevoked'' = Some (Bool True)
                 \<longrightarrow> getProp u ''freezeAuthorityRevoked'' = Some (Bool True)))"
  proof cases
    case 1
    then show ?thesis by simp
  next
    case 2
    have m: "getProp tokenInfo ''mintAuthorityRevoked'' = Some (Bool True)
                 \<longrightarrow> getProp u ''mintAuthorityRevoked'' = Some (Bool True)"
      using revoke_keeps_mint_flag [of tokenInfo results now] 2(1) by auto
    have f: "getProp tokenInfo ''freezeAuthorityRevoked'' = Some (Bool True)
                 \<longrightarrow> getProp u ''freezeAuthorityRevoked'' = Some (Bool True)"
      using revoke_keeps_freeze_flag [of tokenInfo results now] 2(1) by auto
    show ?thesis using 2 m f by blast
  qed
qed

theorem revoked_flags_stay_true_witness:
  "getProp demo_record ''mintAuthorityRevoked'' = Some (Bool True)
   \<and> mintRevoked demo_results = Some False
   \<and> revoke_updatedInfo demo_record demo_results ''2024-01-01T00:00:00.000Z'' = Some demo_updated
   \<and> getProp demo_updated ''mintAuthorityRevoked'' = Some (Bool True)
   \<and> getProp demo_reloaded ''freezeAuthorityRevoked'' = Some (Bool True)
   \<and> freezeRevoked demo_no_attempt = Some False
   \<and> (\<exists>u. revoke_updatedInfo demo_reloaded demo_no_attempt ''2024-02-02T00:00:00.000Z'' = Some u
          \<and> getProp u ''freezeAuthorityRevoked'' = Some (Bool True))
   \<and> findTokenFile demo_runtime demo_fs (Str ''So11111111111111111111111111111111111111112'')
        = Inr (Some demo_file)
   \<and> loadJson demo_runtime demo_fs demo_file = Inr demo_record
   \<and> revokeAuthorities_updateInfo demo_runtime demo_fs demo_record
        (Str ''So11111111111111111111111111111111111111112'') demo_results ''2024-01-01T00:00:00.000Z''
      = (demo_fs_updated, [LogInfo ''Token info updated with revocation details''])
   \<and> saveJson demo_runtime demo_fs demo_file demo_updated = Inr demo_fs_updated
   \<and> demo_fs_updated \<noteq> demo_fs
   \<and> readFileSync demo_fs_updated demo_file = Inr demo_updated_text"
proof -
  have p1: "getProp demo_record ''mintAuthorityRevoked'' = Some (Bool True)"
    by (simp add: demo_record_def)
  have p2: "getProp demo_reloaded ''freezeAuthorityRevoked'' = Some (Bool True)"
    by (simp add: demo_reloaded_def)
  have r: "mintRevoked demo_results = Some False" "freezeRevoked demo_no_attempt = Some False"
    by (simp_all add: demo_results_def demo_no_attempt_def)
  have m: "LogInfo ''Token info updated with revocation details''
             \<in> set [LogInfo ''Token info updated with revocation details'']" by simp
  have ne: "demo_fs_updated \<noteq> demo_fs"
    by (simp add: demo_fs_updated_def demo_fs_def demo_updated_text_def demo_text_def)
  have st: "JSON_stringify demo_runtime demo_updated = Some demo_updated_text"
    by (simp add: demo_runtime_def demo_updated_def demo_record_def)
  note a = revoked_flags_stay_true [where tokenInfo = demo_record and results = demo_results
      and now = "''2024-01-01T00:00:00.000Z''" and rt = demo_runtime and fs = demo_fs
      and tokenAddress = "Str ''So11111111111111111111111111111111111111112''"
      and fs' = demo_fs_updated and evs = "[LogInfo ''Token info updated with revocation details'']"
      and tokenFile = demo_file]
  note b = revoked_flags_stay_true [where tokenInfo = demo_reloaded and results = demo_no_attempt
      and now = "''2024-02-02T00:00:00.000Z''" and rt = demo_runtime and fs = demo_fs
      and tokenAddress = "Str ''So11111111111111111111111111111111111111112''"
      and fs' = demo_fs_updated and evs = "[]" and tokenFile = demo_file]
  from a p1 have c1: "getProp demo_updated ''mintAuthorityRevoked'' = Some (Bool True)"
    by (simp add: demo_revoke_updated)
  from a demo_revoke_patch m have c3: "saveJson demo_runtime demo_fs demo_file demo_updated = Inr demo_fs_updated"
    by (simp add: demo_find demo_revoke_updated)
  from b p2 have c2: "\<exists>u. revoke_updatedInfo demo_reloaded demo_no_attempt ''2024-02-02T00:00:00.000Z'' = Some u
          \<and> getProp u ''freezeAuthorityRevoked'' = Some (Bool True)"
    by blast
  from a demo_find demo_load demo_revoke_patch ne
  have c4: "readFileSync demo_fs_updated demo_file = Inr demo_updated_text"
    by (simp add: demo_revoke_updated st)
  show ?thesis
    using p1 p2 r c1 c2 c3 c4 ne demo_find demo_load demo_revoke_updated demo_revoke_patch by blast
qed

lemma dup_listing: "listTokens dup_fs = Inr [demo_file, dup_file]"
  by (simp add: listTokens_def listFiles_def existsSync_def lookup_node_def CONFIG_PATHS_TOKENS_def
      dup_fs_def demo_file_def dup_file_def readdirSync_def path_join_def endsWith_def suffix_to_prefix)

lemma dup_load_first: "loadJson (node_runtime number_add) dup_fs demo_file = Inr demo_record"
proof -
  have l: "lookup_node dup_fs demo_file = Some (File demo_text)"
    by (simp add: lookup_node_def dup_fs_def demo_file_def)
  have "JSON_parse_text demo_text = Some demo_record"
    using parse_printed [OF json_value_demo(1) print_demo_record] .
  then show ?thesis by (simp add: loadJson_of_text [OF l] node_runtime_def)
qed

lemma dup_load_second: "loadJson (node_runtime number_add) dup_fs dup_file = Inr dup_chosen"
proof -
  have l: "lookup_node dup_fs dup_file = Some (File dup_chosen_text)"
    by (simp add: lookup_node_def dup_fs_def demo_file_def dup_file_def)
  have "JSON_parse_text dup_chosen_text = Some dup_chosen"
    using parse_printed [OF json_value_demo(2) print_dup_chosen] .
  then show ?thesis by (simp add: loadJson_of_text [OF l] node_runtime_def)
qed

lemma dup_find:
  "findTokenFile (node_runtime number_add) dup_fs (Str ''So11111111111111111111111111111111111111112'')
     = Inr (Some demo_file)"
  by (simp add: findTokenFile_def dup_listing matchesMint_def dup_load_first demo_record_def)

lemma dup_updated:
  "revoke_updatedInfo dup_chosen mint_failed ''2024-01-01T00:00:00.000Z'' = Some dup_written"
  by (simp add: revoke_updatedInfo_def dup_chosen_def mint_failed_def set_props_def
      js_or_def flag_value_def text_value_def dup_written_def)

lemma dup_save:
  "saveJson (node_runtime number_add) dup_fs demo_file dup_written = Inr dup_fs_after"
proof -
  have st: "JSON_stringify (node_runtime number_add) dup_written = Some dup_written_text"
    by (simp add: node_runtime_def print_dup_written)
  show ?thesis
    by (simp add: saveJson_def st ensureDir_def existsSync_def lookup_node_def dirname_def
        demo_file_def dup_file_def dup_fs_def writeFileSync_def dup_fs_after_def)
qed

lemma dup_load_after: "loadJson (node_runtime number_add) dup_fs_after demo_file = Inr dup_reloaded"
proof -
  have l: "lookup_node dup_fs_after demo_file = Some (File dup_written_text)"
    by (simp add: lookup_node_def dup_fs_after_def demo_file_def)
  have "JSON_parse_text dup_written_text = Some dup_reloaded"
    using parse_printed [OF json_value_demo(3) print_dup_reloaded] .
  then show ?thesis by (simp add: loadJson_of_text [OF l] node_runtime_def)
qed

text \<open>
  Two files with one mint address: the first stores mint authority revoked, the second
  is chosen and does not. After a failed attempt the first file stores the flag as
  \<^verbatim>\<open>false\<close>.
\<close>

theorem stored_flag_lost_counterexample:
  "loadJson (node_runtime number_add) dup_fs demo_file = Inr demo_record
   \<and> getProp demo_record ''mintAuthorityRevoked'' = Some (Bool True)
   \<and> loadJson (node_runtime number_add) dup_fs dup_file = Inr dup_chosen
   \<and> revokeAuthorities_updateInfo (node_runtime number_add) dup_fs dup_chosen
        (Str ''So11111111111111111111111111111111111111112'') mint_failed ''2024-01-01T00:00:00.000Z''
      = (dup_fs_after, [LogInfo ''Token info updated with revocation details''])
   \<and> loadJson (node_runtime number_add) dup_fs_after demo_file = Inr dup_reloaded
   \<and> getProp dup_reloaded ''mintAuthorityRevoked'' = Some (Bool False)"
proof -
  have t: "truthy dup_chosen" by (simp add: dup_chosen_def)
  have p: "revokeAuthorities_updateInfo (node_runtime number_add) dup_fs dup_chosen
        (Str ''So11111111111111111111111111111111111111112'') mint_failed ''2024-01-01T00:00:00.000Z''
      = (dup_fs_after, [LogInfo ''Token info updated with revocation details''])"
    by (simp add: revokeAuthorities_updateInfo_def t dup_find dup_updated dup_save)
  have a: "getProp demo_record ''mintAuthorityRevoked'' = Some (Bool True)"
    by (simp add: demo_record_def)
  have b: "getProp dup_reloaded ''mintAuthorityRevoked'' = Some (Bool False)"
    by (simp add: dup_reloaded_def)
  from dup_load_first a dup_load_second p dup_load_after b show ?thesis by blast
qed

end
